theory Spec2Isabelle
  imports Complex_Main "HOL-Library.AList"
begin

section \<open>Python floats\<close>

text \<open>
  A Python \<open>float\<close> is an IEEE 754 double: a finite value, an infinity, or \<open>nan\<close>. A
  finite double is written as the rational it denotes (the two zeros are not told apart;
  they compare equal). The sum of two finite doubles is the exact sum rounded to the
  nearest double, a tie going to the even mantissa, so that \<open>waited += poll_interval\<close>
  accumulates the rounding errors that the interpreter accumulates.
\<close>

datatype pyfloat = Finite rat | PosInf | NegInf | NaN

text \<open>\<open>int.bit_length\<close>: the number of binary digits of a positive integer.\<close>

function bit_length :: "int \<Rightarrow> int" where
  "bit_length a = (if a \<le> 0 then 0 else 1 + bit_length (a div 2))"
  by pat_completeness auto
termination
  by (relation "measure nat") auto

declare bit_length.simps [simp del]

definition pow2 :: "int \<Rightarrow> rat" where
  "pow2 e = (if 0 \<le> e then 2 ^ nat e else 1 / 2 ^ nat (- e))"

text \<open>The exponent \<open>e\<close> of a positive rational \<open>r\<close>: \<open>2 ^ e \<le> r < 2 ^ (e + 1)\<close>.\<close>

definition floor_log2 :: "rat \<Rightarrow> int" where
  "floor_log2 r =
     (if 1 \<le> r then bit_length \<lfloor>r\<rfloor> - 1 else - bit_length (\<lceil>1 / r\<rceil> - 1))"

definition round_half_even :: "rat \<Rightarrow> int" where
  "round_half_even x =
     (let f = \<lfloor>x\<rfloor>; d = x - of_int f
      in if d < 1 / 2 then f
         else if 1 / 2 < d then f + 1
         else if even f then f else f + 1)"

text \<open>
  The double nearest to a rational. A double has 53 binary digits and its last digit
  weighs at least \<open>2 ^ -1074\<close>; a result of magnitude \<open>2 ^ 1024\<close> or more is an infinity.
  This is also the value of a literal: \<open>0.1\<close> is \<open>round_double (1 / 10)\<close>.
\<close>

definition round_double :: "rat \<Rightarrow> pyfloat" where
  "round_double r =
     (if r = 0 then Finite 0
      else
        let q = pow2 (max (floor_log2 \<bar>r\<bar> - 52) (- 1074));
            v = of_int (round_half_even (r / q)) * q
        in if 1024 < bit_length \<lfloor>\<bar>v\<bar>\<rfloor> then (if 0 < r then PosInf else NegInf)
           else Finite v)"

text \<open>\<open>x + y\<close> on floats.\<close>

fun float_add :: "pyfloat \<Rightarrow> pyfloat \<Rightarrow> pyfloat" where
  "float_add NaN _ = NaN"
| "float_add _ NaN = NaN"
| "float_add PosInf NegInf = NaN"
| "float_add NegInf PosInf = NaN"
| "float_add PosInf _ = PosInf"
| "float_add _ PosInf = PosInf"
| "float_add NegInf _ = NegInf"
| "float_add _ NegInf = NegInf"
| "float_add (Finite a) (Finite b) = round_double (a + b)"

text \<open>\<open>x < y\<close> on floats: false whenever one of them is \<open>nan\<close>.\<close>

fun float_lt :: "pyfloat \<Rightarrow> pyfloat \<Rightarrow> bool" where
  "float_lt NaN _ = False"
| "float_lt _ NaN = False"
| "float_lt PosInf _ = False"
| "float_lt NegInf NegInf = False"
| "float_lt NegInf _ = True"
| "float_lt (Finite a) PosInf = True"
| "float_lt (Finite a) NegInf = False"
| "float_lt (Finite a) (Finite b) = (a < b)"

section \<open>Python values and exceptions\<close>

text \<open>
  The module \<open>aws_db_utils.py\<close> handles dynamically typed data: the result of
  \<open>json.loads\<close>, the fields of a secret, the cells of a Data API record. A \<open>pyval\<close> is
  such a value. A dict is an association list in insertion order (its keys are strings, as
  in every JSON object); bytes are a \<open>string\<close>, whose characters are bytes.
\<close>

datatype pyval =
    PNone
  | PBool bool
  | PInt int
  | PFloat pyfloat
  | PStr string
  | PBytes string
  | PList "pyval list"
  | PDict "(string \<times> pyval) list"

text \<open>
  An exception is a value. \<open>OtherException\<close> stands for any further subclass of
  \<open>Exception\<close> (a driver's \<open>OperationalError\<close>, for instance), \<open>BaseException\<close> for
  the ones that are not (\<open>KeyboardInterrupt\<close>, \<open>SystemExit\<close>, \<open>GeneratorExit\<close>).
\<close>

datatype error =
    ClientError string
  | ValueError string
  | TypeError string
  | AttributeError string
  | KeyError string
  | RuntimeError string
  | OverflowError string
  | OtherException string
  | BaseException string

text \<open>\<open>isinstance(e, Exception)\<close>: what an \<open>except Exception\<close> clause catches.\<close>

fun is_Exception :: "error \<Rightarrow> bool" where
  "is_Exception (BaseException _) = False"
| "is_Exception _ = True"

text \<open>\<open>isinstance(e, botocore.exceptions.ClientError)\<close>.\<close>

fun is_ClientError :: "error \<Rightarrow> bool" where
  "is_ClientError (ClientError _) = True"
| "is_ClientError _ = False"

text \<open>Python's truth value of an object, as \<open>if x\<close>, \<open>not x\<close> and \<open>x or y\<close> test it.\<close>

fun truthy :: "pyval \<Rightarrow> bool" where
  "truthy PNone = False"
| "truthy (PBool b) = b"
| "truthy (PInt n) = (n \<noteq> 0)"
| "truthy (PFloat x) = (x \<noteq> Finite 0)"
| "truthy (PStr s) = (s \<noteq> [])"
| "truthy (PBytes s) = (s \<noteq> [])"
| "truthy (PList xs) = (xs \<noteq> [])"
| "truthy (PDict kvs) = (kvs \<noteq> [])"

text \<open>\<open>x or y\<close> is \<open>x\<close> when \<open>x\<close> is true and \<open>y\<close> otherwise.\<close>

definition py_or :: "pyval \<Rightarrow> pyval \<Rightarrow> pyval" where
  "py_or x y = (if truthy x then x else y)"

text \<open>\<open>type(x).__name__\<close>, for the messages of the interpreter's own exceptions.\<close>

fun type_name :: "pyval \<Rightarrow> string" where
  "type_name PNone = ''NoneType''"
| "type_name (PBool _) = ''bool''"
| "type_name (PInt _) = ''int''"
| "type_name (PFloat _) = ''float''"
| "type_name (PStr _) = ''str''"
| "type_name (PBytes _) = ''bytes''"
| "type_name (PList _) = ''list''"
| "type_name (PDict _) = ''dict''"

text \<open>A name between single quotes, as the interpreter prints it in a message.\<close>

definition quoted :: "string \<Rightarrow> string" where
  "quoted s = CHR 0x27 # s @ [CHR 0x27]"

text \<open>\<open>d.get(k)\<close> and \<open>d.get(k, default)\<close> on a dict.\<close>

definition dict_get :: "(string \<times> pyval) list \<Rightarrow> string \<Rightarrow> pyval" where
  "dict_get d k = (case map_of d k of None \<Rightarrow> PNone | Some v \<Rightarrow> v)"

definition dict_get_default :: "(string \<times> pyval) list \<Rightarrow> string \<Rightarrow> pyval \<Rightarrow> pyval" where
  "dict_get_default d k dflt = (case map_of d k of None \<Rightarrow> dflt | Some v \<Rightarrow> v)"

text \<open>An optional string argument (\<open>Optional[str]\<close>) as a value, and its truth value.\<close>

fun opt_str :: "string option \<Rightarrow> pyval" where
  "opt_str None = PNone"
| "opt_str (Some s) = PStr s"

fun given :: "string option \<Rightarrow> bool" where
  "given None = False"
| "given (Some s) = (s \<noteq> [])"

section \<open>The outside world\<close>

text \<open>
  What \<open>get_secret_value\<close> of the Secrets Manager client answers: the two fields of the
  response that the module reads, each present or absent.
\<close>

record vault_response =
  SecretString :: "string option"
  SecretBinary :: "string option"

text \<open>
  \<open>RedshiftConnectionParams\<close> and \<open>MySQLConnectionParams\<close> are the two dataclasses of the
  module. The second has the five fields of the first, in the same order, and two more, so
  it is written as an extension of it.
\<close>

record RedshiftConnectionParams =
  host :: pyval
  port :: int
  database :: pyval
  user :: pyval
  password :: pyval

record MySQLConnectionParams = RedshiftConnectionParams +
  connect_timeout :: int
  ssl :: pyval

text \<open>
  An open driver connection. All the module does with it is call \<open>close()\<close>, which either
  returns or raises.
\<close>

record connection =
  conn_id :: nat
  close_raises :: "error option"

text \<open>What \<open>describe_statement\<close> answers: the two keys read with \<open>describe.get\<close>.\<close>

record describe_response =
  Status :: "string option"
  Error :: "string option"

text \<open>
  What \<open>get_statement_result\<close> answers. A column's metadata is a dict of which only
  \<open>name\<close> is read; a record is a list of cells.
\<close>

record statement_result =
  ColumnMetadata :: "(string \<times> string) list list option"
  Records :: "pyval list list option"

text \<open>
  The collaborators of the module, which it reaches through \<open>boto3\<close>, \<open>pymysql\<close>,
  \<open>psycopg2\<close> and the standard library. \<open>json_loads\<close> answers \<open>None\<close> where
  \<open>json.loads\<close> raises \<open>JSONDecodeError\<close>, \<open>int_str\<close> where \<open>int\<close> of a string raises
  \<open>ValueError\<close>. \<open>sleep\<close> is \<open>time.sleep\<close>: it returns, or raises (on a negative
  length, for one). \<open>describe_statement\<close> takes the number of polls made before, so
  that a statement's status can change while the caller waits.
\<close>

record world =
  get_secret_value :: "string \<Rightarrow> error + vault_response"
  json_loads :: "string \<Rightarrow> pyval option"
  int_str :: "string \<Rightarrow> int option"
  sleep :: "pyfloat \<Rightarrow> error option"
  pymysql_connect :: "MySQLConnectionParams \<Rightarrow> error + connection"
  psycopg2_connect :: "RedshiftConnectionParams \<Rightarrow> error + connection"
  execute_statement :: "(string \<times> string) list \<Rightarrow> error + string"
  describe_statement :: "string \<Rightarrow> nat \<Rightarrow> error + describe_response"
  get_statement_result :: "string \<Rightarrow> error + statement_result"

text \<open>
  Every call that leaves the process, and every \<open>logger.exception\<close>, is an event; a
  function of the module returns its outcome together with the events it caused, in order.
  \<open>Yield\<close> is the point where a context manager hands the connection to the caller's block.
\<close>

datatype event =
    GetSecretValue string
  | PyMySQLConnect MySQLConnectionParams
  | Psycopg2Connect RedshiftConnectionParams
  | Yield
  | Close nat
  | LogException string
  | ExecuteStatement "(string \<times> string) list"
  | DescribeStatement string
  | Sleep pyfloat
  | GetStatementResult string

section \<open>SecretsManagerService\<close>

text \<open>
  \<open>get_secret\<close>: a \<open>ClientError\<close> of the client is logged and raised again, any other
  exception just propagates. A true (non-empty) \<open>SecretString\<close> is parsed, and wrapped
  under \<open>secret\<close> when it is not JSON; otherwise a true \<open>SecretBinary\<close> is wrapped under
  \<open>secret_binary\<close>; otherwise \<open>ValueError\<close>.
\<close>

definition get_secret :: "world \<Rightarrow> string \<Rightarrow> (error + pyval) \<times> event list" where
  "get_secret w secret_name =
     (case get_secret_value w secret_name of
        Inl e \<Rightarrow>
          (Inl e, GetSecretValue secret_name #
                  (if is_ClientError e
                   then [LogException (''Failed to fetch secret '' @ secret_name)] else []))
      | Inr response \<Rightarrow>
          (let secret_string = SecretString response in
           if given secret_string then
             (case json_loads w (the secret_string) of
                Some v \<Rightarrow> Inr v
              | None \<Rightarrow> Inr (PDict [(''secret'', PStr (the secret_string))]))
           else
             (let binary_secret = SecretBinary response in
              if given binary_secret
              then Inr (PDict [(''secret_binary'', PBytes (the binary_secret))])
              else Inl (ValueError ''Secret did not contain SecretString or SecretBinary'')),
           [GetSecretValue secret_name]))"

text \<open>
  \<open>int(x)\<close>, as \<open>int(secret.get("port", 3306))\<close> uses it: an integer is itself, a bool is
  0 or 1, a finite float is truncated towards zero, a string or bytes is parsed, and
  anything else is a \<open>TypeError\<close>.
\<close>

fun py_int :: "world \<Rightarrow> pyval \<Rightarrow> error + int" where
  "py_int w (PInt n) = Inr n"
| "py_int w (PBool b) = Inr (if b then 1 else 0)"
| "py_int w (PFloat (Finite r)) = Inr (if 0 \<le> r then \<lfloor>r\<rfloor> else \<lceil>r\<rceil>)"
| "py_int w (PFloat NaN) = Inl (ValueError ''cannot convert float NaN to integer'')"
| "py_int w (PFloat x) = Inl (OverflowError ''cannot convert float infinity to integer'')"
| "py_int w (PStr s) =
     (case int_str w s of
        Some n \<Rightarrow> Inr n
      | None \<Rightarrow> Inl (ValueError (''invalid literal for int() with base 10: '' @ quoted s)))"
| "py_int w (PBytes s) =
     (case int_str w s of
        Some n \<Rightarrow> Inr n
      | None \<Rightarrow> Inl (ValueError (''invalid literal for int() with base 10: b'' @ quoted s)))"
| "py_int w v =
     Inl (TypeError (''int() argument must be a string, a bytes-like object or a real number, not ''
                     @ quoted (type_name v)))"

section \<open>RdsMySQLService\<close>

text \<open>
  \<open>RdsMySQLService._params_from_secret\<close>. The secret is whatever \<open>get_secret\<close> returned;
  \<open>secret.get\<close> exists on a dict only, so any other value raises \<open>AttributeError\<close> at the
  first lookup. Nothing checks that a host or a user was found: a lookup that finds no true
  value leaves \<open>None\<close> in the field.
\<close>

definition RdsMySQL_params_from_secret ::
  "world \<Rightarrow> string \<Rightarrow> (error + MySQLConnectionParams) \<times> event list" where
  "RdsMySQL_params_from_secret w secret_name =
     (case get_secret w secret_name of
        (Inl e, evs) \<Rightarrow> (Inl e, evs)
      | (Inr (PDict secret), evs) \<Rightarrow>
          (case py_int w (dict_get_default secret ''port'' (PInt 3306)) of
             Inl e \<Rightarrow> (Inl e, evs)
           | Inr p \<Rightarrow>
               (Inr \<lparr> host = py_or (py_or (dict_get secret ''host'') (dict_get secret ''hostname''))
                                  (dict_get secret ''url''),
                      port = p,
                      database = py_or (py_or (dict_get secret ''dbname'') (dict_get secret ''database''))
                                      (dict_get secret ''db''),
                      user = py_or (dict_get secret ''username'') (dict_get secret ''user''),
                      password = dict_get secret ''password'',
                      connect_timeout = 10,
                      ssl = (case map_of secret ''ssl'' of Some (PDict s) \<Rightarrow> PDict s | _ \<Rightarrow> PNone) \<rparr>,
                evs))
      | (Inr v, evs) \<Rightarrow>
          (Inl (AttributeError (quoted (type_name v) @ '' object has no attribute '' @ quoted ''get'')), evs))"

text \<open>
  The keyword arguments of \<open>RedshiftService.connect_psycopg2\<close>, and those of
  \<open>RdsMySQLService.connect\<close>, which has \<open>ssl\<close> as well (its \<open>region_name\<close> is never read).
  \<open>kw_port = None\<close> is a call that leaves \<open>port\<close> out, so that the default of the signature
  applies.
\<close>

record connect_kwargs =
  kw_secret_name :: "string option"
  kw_host :: "string option"
  kw_port :: "int option"
  kw_database :: "string option"
  kw_user :: "string option"
  kw_password :: "string option"

record mysql_connect_kwargs = connect_kwargs +
  kw_ssl :: "(string \<times> pyval) list option"

text \<open>
  The block that ends both context managers:
  \<^verbatim>\<open>
  try:
      yield conn
  finally:
      try:
          conn.close()
      except Exception:
          logger.exception(msg)
  \<close>
  \<open>body\<close> is the caller's \<open>with\<close> block: it returns a value or raises. \<open>close\<close> runs
  after it in both cases; what \<open>close\<close> raises is logged and dropped when it is an
  \<open>Exception\<close>, and leaves the \<open>finally\<close> clause otherwise.
\<close>

definition yield_and_close ::
  "string \<Rightarrow> connection \<Rightarrow> (connection \<Rightarrow> error + 'r) \<Rightarrow> (error + 'r) \<times> event list" where
  "yield_and_close msg conn body =
     (let outcome = body conn in
      case close_raises conn of
        None \<Rightarrow> (outcome, [Yield, Close (conn_id conn)])
      | Some e \<Rightarrow>
          if is_Exception e
          then (outcome, [Yield, Close (conn_id conn), LogException msg])
          else (Inl e, [Yield, Close (conn_id conn)]))"

text \<open>\<open>RdsMySQLService.connect\<close>, used as \<open>with service.connect(...) as conn: body\<close>.\<close>

definition connect ::
  "world \<Rightarrow> mysql_connect_kwargs \<Rightarrow> (connection \<Rightarrow> error + 'r) \<Rightarrow> (error + 'r) \<times> event list" where
  "connect w kw body =
     (case (if given (kw_secret_name kw)
            then RdsMySQL_params_from_secret w (the (kw_secret_name kw))
            else if \<not> given (kw_host kw) \<or> \<not> given (kw_user kw)
            then (Inl (ValueError ''host and user must be provided if secret_name is not used''), [])
            else (Inr \<lparr> host = opt_str (kw_host kw),
                        port = (case kw_port kw of None \<Rightarrow> 3306 | Some p \<Rightarrow> p),
                        database = opt_str (kw_database kw),
                        user = opt_str (kw_user kw),
                        password = opt_str (kw_password kw),
                        connect_timeout = 10,
                        ssl = (case kw_ssl kw of None \<Rightarrow> PNone | Some s \<Rightarrow> PDict s) \<rparr>, [])) of
        (Inl e, evs) \<Rightarrow> (Inl e, evs)
      | (Inr params, evs) \<Rightarrow>
          (case pymysql_connect w params of
             Inl e \<Rightarrow> (Inl e, evs @ [PyMySQLConnect params])
           | Inr conn \<Rightarrow>
               (case yield_and_close ''Error closing MySQL connection'' conn body of
                  (outcome, evs') \<Rightarrow> (outcome, evs @ [PyMySQLConnect params] @ evs'))))"

section \<open>RedshiftService\<close>

text \<open>\<open>RedshiftService.params_from_secret\<close>: other fallback keys, the default port 5439.\<close>

definition params_from_secret ::
  "world \<Rightarrow> string \<Rightarrow> (error + RedshiftConnectionParams) \<times> event list" where
  "params_from_secret w secret_name =
     (case get_secret w secret_name of
        (Inl e, evs) \<Rightarrow> (Inl e, evs)
      | (Inr (PDict secret), evs) \<Rightarrow>
          (case py_int w (dict_get_default secret ''port'' (PInt 5439)) of
             Inl e \<Rightarrow> (Inl e, evs)
           | Inr p \<Rightarrow>
               (Inr \<lparr> host = py_or (py_or (dict_get secret ''host'') (dict_get secret ''endpoint''))
                                  (dict_get secret ''hostname''),
                      port = p,
                      database = py_or (dict_get secret ''dbname'') (dict_get secret ''database''),
                      user = py_or (dict_get secret ''username'') (dict_get secret ''user''),
                      password = dict_get secret ''password'' \<rparr>,
                evs))
      | (Inr v, evs) \<Rightarrow>
          (Inl (AttributeError (quoted (type_name v) @ '' object has no attribute '' @ quoted ''get'')), evs))"

text \<open>\<open>RedshiftService.connect_psycopg2\<close>.\<close>

definition connect_psycopg2 ::
  "world \<Rightarrow> connect_kwargs \<Rightarrow> (connection \<Rightarrow> error + 'r) \<Rightarrow> (error + 'r) \<times> event list" where
  "connect_psycopg2 w kw body =
     (case (if given (kw_secret_name kw)
            then params_from_secret w (the (kw_secret_name kw))
            else if \<not> given (kw_host kw) \<or> \<not> given (kw_user kw)
            then (Inl (ValueError ''host and user must be provided if secret_name is not used''), [])
            else (Inr \<lparr> host = opt_str (kw_host kw),
                        port = (case kw_port kw of None \<Rightarrow> 5439 | Some p \<Rightarrow> p),
                        database = opt_str (kw_database kw),
                        user = opt_str (kw_user kw),
                        password = opt_str (kw_password kw) \<rparr>, [])) of
        (Inl e, evs) \<Rightarrow> (Inl e, evs)
      | (Inr params, evs) \<Rightarrow>
          (case psycopg2_connect w params of
             Inl e \<Rightarrow> (Inl e, evs @ [Psycopg2Connect params])
           | Inr conn \<Rightarrow>
               (case yield_and_close ''Error closing Redshift psycopg2 connection'' conn body of
                  (outcome, evs') \<Rightarrow> (outcome, evs @ [Psycopg2Connect params] @ evs'))))"

subsection \<open>The Data API: submit, poll, fetch\<close>

text \<open>
  The arguments of \<open>execute_query_data_api\<close>. The two times are Python floats.
\<close>

record data_api_kwargs =
  sql :: string
  api_database :: string
  cluster_identifier :: "string option"
  workgroup_name :: "string option"
  db_user :: "string option"
  secret_arn :: "string option"
  wait :: bool
  poll_interval :: pyfloat
  timeout :: pyfloat

text \<open>The request dict \<open>kwargs\<close>, in insertion order.\<close>

definition request_kwargs :: "data_api_kwargs \<Rightarrow> (string \<times> string) list" where
  "request_kwargs a =
     [(''Sql'', sql a), (''Database'', api_database a)]
     @ (if given (cluster_identifier a) then [(''ClusterIdentifier'', the (cluster_identifier a))] else [])
     @ (if given (workgroup_name a) then [(''WorkgroupName'', the (workgroup_name a))] else [])
     @ (if given (db_user a) then [(''DbUser'', the (db_user a))] else [])
     @ (if given (secret_arn a) then [(''SecretArn'', the (secret_arn a))] else [])"

text \<open>\<open>f"{message}"\<close> of an optional string: \<open>None\<close> prints as \<open>None\<close>.\<close>

fun fmt_opt :: "string option \<Rightarrow> string" where
  "fmt_opt None = ''None''"
| "fmt_opt (Some s) = s"

text \<open>
  The \<open>while waited < timeout\<close> loop. \<open>n\<close> counts the polls made so far and \<open>evs\<close>
  collects the events. The loop ends with \<open>None\<close> on \<open>break\<close> and when the condition
  fails, and with \<open>Some e\<close> when an exception leaves it. It need not end (a
  \<open>poll_interval\<close> of zero, or an infinite \<open>timeout\<close>, against a statement that stays
  pending), so that the function is partial: \<open>None\<close> at the outer level is a loop that
  runs forever.
\<close>

partial_function (option) poll_loop ::
  "world \<Rightarrow> string \<Rightarrow> pyfloat \<Rightarrow> pyfloat \<Rightarrow> pyfloat \<Rightarrow> nat \<Rightarrow> event list
     \<Rightarrow> (error option \<times> event list) option" where
  "poll_loop w statement_id interval limit waited n evs =
     (if float_lt waited limit then
        (case describe_statement w statement_id n of
           Inl e \<Rightarrow> Some (Some e, evs @ [DescribeStatement statement_id])
         | Inr describe \<Rightarrow>
             if Status describe = Some ''FINISHED''
             then Some (None, evs @ [DescribeStatement statement_id])
             else if Status describe \<in> {Some ''ABORTED'', Some ''FAILED'', Some ''TIMED_OUT''}
             then Some (Some (RuntimeError
                          (''Redshift Data API statement '' @ statement_id
                           @ '' failed with status '' @ fmt_opt (Status describe)
                           @ '': '' @ fmt_opt (Error describe))),
                        evs @ [DescribeStatement statement_id])
             else
               (case sleep w interval of
                  Some e \<Rightarrow> Some (Some e, evs @ [DescribeStatement statement_id, Sleep interval])
                | None \<Rightarrow>
                    poll_loop w statement_id interval limit (float_add waited interval) (Suc n)
                      (evs @ [DescribeStatement statement_id, Sleep interval])))
      else Some (None, evs))"

declare poll_loop.simps [code]

text \<open>
  The value of \<open>waited\<close> after \<open>k\<close> rounds of the loop: \<open>poll_interval\<close> added \<open>k\<close> times
  to \<open>0.0\<close>, in float arithmetic.
\<close>

definition waited_after :: "pyfloat \<Rightarrow> nat \<Rightarrow> pyfloat" where
  "waited_after interval k = ((\<lambda>waited. float_add waited interval) ^^ k) (Finite 0)"

text \<open>
  Decoding one cell. A false cell (\<open>None\<close>, an empty dict) is \<open>None\<close>. Otherwise the
  typed keys are tried in the order of the \<open>if\<close>/\<open>elif\<close> chain; \<open>isNull\<close> counts only
  when its value is true; the last branch takes the value of the first key of the dict.
  \<open>item.keys()\<close> exists on a dict only.
\<close>

definition decode_cell :: "pyval \<Rightarrow> error + pyval" where
  "decode_cell item =
     (if \<not> truthy item then Inr PNone
      else case item of
        PDict d \<Rightarrow>
          (let inner_keys = map fst d in
           if map_of d ''stringValue'' \<noteq> None then Inr (dict_get d ''stringValue'')
           else if map_of d ''longValue'' \<noteq> None then Inr (dict_get d ''longValue'')
           else if map_of d ''doubleValue'' \<noteq> None then Inr (dict_get d ''doubleValue'')
           else if map_of d ''booleanValue'' \<noteq> None then Inr (dict_get d ''booleanValue'')
           else if map_of d ''isNull'' \<noteq> None \<and> truthy (dict_get d ''isNull'') then Inr PNone
           else Inr (dict_get d (hd inner_keys)))
      | _ \<Rightarrow> Inl (AttributeError (quoted (type_name item) @ '' object has no attribute ''
                                  @ quoted ''keys'')))"

text \<open>
  The inner loop \<open>for col, item in zip(columns, r)\<close>: \<open>record[col] = value\<close> adds a key
  at the end, or overwrites the value of a key that is there already.
\<close>

fun decode_record ::
  "(string \<times> pyval) list \<Rightarrow> (string \<times> pyval) list \<Rightarrow> error + (string \<times> pyval) list" where
  "decode_record record [] = Inr record"
| "decode_record record ((col, item) # rest) =
     (case decode_cell item of
        Inl e \<Rightarrow> Inl e
      | Inr v \<Rightarrow> decode_record (AList.update col v record) rest)"

text \<open>The outer loop \<open>for r in result.get("Records", [])\<close>, with \<open>rows.append(record)\<close>.\<close>

fun decode_records ::
  "string list \<Rightarrow> (string \<times> pyval) list list \<Rightarrow> pyval list list
     \<Rightarrow> error + (string \<times> pyval) list list" where
  "decode_records columns rows [] = Inr rows"
| "decode_records columns rows (r # rs) =
     (case decode_record [] (zip columns r) of
        Inl e \<Rightarrow> Inl e
      | Inr record \<Rightarrow> decode_records columns (rows @ [record]) rs)"

text \<open>\<open>[col["name"] for col in ...]\<close>: a column without \<open>name\<close> is a \<open>KeyError\<close>.\<close>

fun column_names :: "(string \<times> string) list list \<Rightarrow> error + string list" where
  "column_names [] = Inr []"
| "column_names (col # cols) =
     (case map_of col ''name'' of
        None \<Rightarrow> Inl (KeyError ''name'')
      | Some c \<Rightarrow> (case column_names cols of Inl e \<Rightarrow> Inl e | Inr cs \<Rightarrow> Inr (c # cs)))"

text \<open>What follows \<open>get_statement_result\<close>: the columns, then the rows.\<close>

definition decode_result :: "statement_result \<Rightarrow> error + (string \<times> pyval) list list" where
  "decode_result result =
     (case column_names (case ColumnMetadata result of None \<Rightarrow> [] | Some cm \<Rightarrow> cm) of
        Inl e \<Rightarrow> Inl e
      | Inr columns \<Rightarrow>
          decode_records columns [] (case Records result of None \<Rightarrow> [] | Some rs \<Rightarrow> rs))"

text \<open>
  \<open>RedshiftService.execute_query_data_api\<close>. The only check of the target is
  \<open>not (cluster_identifier or workgroup_name)\<close>. After the loop, however it ended without
  an exception, \<open>get_statement_result\<close> is called.
\<close>

definition execute_query_data_api ::
  "world \<Rightarrow> data_api_kwargs \<Rightarrow> ((error + (string \<times> pyval) list list) \<times> event list) option" where
  "execute_query_data_api w a =
     (if \<not> (given (cluster_identifier a) \<or> given (workgroup_name a))
      then Some (Inl (ValueError ''Either cluster_identifier or workgroup_name must be provided''), [])
      else
        (let kwargs = request_kwargs a in
         case execute_statement w kwargs of
           Inl e \<Rightarrow>
             Some (Inl e, ExecuteStatement kwargs #
                          (if is_ClientError e
                           then [LogException ''Failed to execute statement via Redshift Data API'']
                           else []))
         | Inr statement_id \<Rightarrow>
             if \<not> wait a then Some (Inr [], [ExecuteStatement kwargs])
             else
               (case poll_loop w statement_id (poll_interval a) (timeout a) (Finite 0) 0
                       [ExecuteStatement kwargs] of
                  None \<Rightarrow> None
                | Some (Some e, evs) \<Rightarrow> Some (Inl e, evs)
                | Some (None, evs) \<Rightarrow>
                    (case get_statement_result w statement_id of
                       Inl e \<Rightarrow>
                         Some (Inl e, evs @ GetStatementResult statement_id #
                                      (if is_ClientError e
                                       then [LogException ''Failed to fetch statement results'']
                                       else []))
                     | Inr result \<Rightarrow>
                         Some (decode_result result, evs @ [GetStatementResult statement_id])))))"

section \<open>Reading the events\<close>

text \<open>The connections that were closed, and the secrets that were asked of the vault.\<close>

fun closes :: "event list \<Rightarrow> nat list" where
  "closes [] = []"
| "closes (Close c # evs) = c # closes evs"
| "closes (_ # evs) = closes evs"

fun vault_calls :: "event list \<Rightarrow> string list" where
  "vault_calls [] = []"
| "vault_calls (GetSecretValue name # evs) = name # vault_calls evs"
| "vault_calls (_ # evs) = vault_calls evs"

section \<open>A world to run the module in\<close>

text \<open>
  A vault with four secrets (a JSON list, an empty string, a JSON object with host, user
  and password, and one that has a password and nothing else), a MySQL driver whose
  connections close quietly, a psycopg2 driver whose connections fail on \<open>close\<close>, a
  \<open>sleep\<close> that accepts every length but the negative ones, \<open>nan\<close> and infinity, and a
  warehouse whose statement stays in \<open>STARTED\<close> for ever while \<open>get_statement_result\<close>
  answers with one row.
\<close>

definition example_world :: world where
  "example_world =
     \<lparr> get_secret_value = (\<lambda>name.
         if name = ''list-secret''
         then Inr \<lparr> SecretString = Some ''[1, 2]'', SecretBinary = None \<rparr>
         else if name = ''empty-secret''
         then Inr \<lparr> SecretString = Some [], SecretBinary = None \<rparr>
         else if name = ''db-secret''
         then Inr \<lparr> SecretString = Some ''{\"host\": \"db.internal\", \"username\": \"app\", \"password\": \"pw\"}'',
                     SecretBinary = None \<rparr>
         else if name = ''password-only''
         then Inr \<lparr> SecretString = Some ''{\"password\": \"pw\"}'', SecretBinary = None \<rparr>
         else Inl (ClientError ''ResourceNotFoundException'')),
       json_loads = (\<lambda>s.
         if s = ''[1, 2]'' then Some (PList [PInt 1, PInt 2])
         else if s = ''{\"host\": \"db.internal\", \"username\": \"app\", \"password\": \"pw\"}''
         then Some (PDict [(''host'', PStr ''db.internal''), (''username'', PStr ''app''),
                           (''password'', PStr ''pw'')])
         else if s = ''{\"password\": \"pw\"}'' then Some (PDict [(''password'', PStr ''pw'')])
         else None),
       int_str = (\<lambda>s. None),
       sleep = (\<lambda>t.
         if float_lt t (Finite 0) then Some (ValueError ''sleep length must be non-negative'')
         else if t = NaN then Some (ValueError ''Invalid value NaN (not a number)'')
         else if t = PosInf then Some (OverflowError ''timestamp too large to convert to C PyTime_t'')
         else None),
       pymysql_connect = (\<lambda>p. Inr \<lparr> conn_id = 1, close_raises = None \<rparr>),
       psycopg2_connect =
         (\<lambda>p. Inr \<lparr> conn_id = 2, close_raises = Some (OtherException ''connection already closed'') \<rparr>),
       execute_statement = (\<lambda>kw. Inr ''stmt-1''),
       describe_statement = (\<lambda>sid n. Inr \<lparr> Status = Some ''STARTED'', Error = None \<rparr>),
       get_statement_result = (\<lambda>sid.
         Inr \<lparr> ColumnMetadata = Some [[(''name'', ''a'')], [(''name'', ''b'')]],
               Records = Some [[PDict [(''stringValue'', PStr ''x'')],
                                PDict [(''isNull'', PBool True)]]] \<rparr>) \<rparr>"

text \<open>The same world, with a MySQL driver whose \<open>close\<close> is interrupted from the keyboard.\<close>

definition interrupted_world :: world where
  "interrupted_world =
     example_world \<lparr> pymysql_connect :=
       (\<lambda>p. Inr \<lparr> conn_id = 3, close_raises = Some (BaseException ''KeyboardInterrupt'') \<rparr>) \<rparr>"

text \<open>Two blocks for a \<open>with\<close> statement: one returns, one raises.\<close>

definition body_returns :: "connection \<Rightarrow> error + nat" where
  "body_returns conn = Inr (conn_id conn)"

definition body_raises :: "connection \<Rightarrow> error + nat" where
  "body_raises conn = Inl (RuntimeError ''boom'')"

text \<open>
  Calls of \<open>RdsMySQLService.connect\<close>: with explicit parameters and no port, with a secret
  name on top of them, with nothing at all, and with the secret that has only a password.
\<close>

definition mysql_explicit :: mysql_connect_kwargs where
  "mysql_explicit =
     \<lparr> kw_secret_name = None, kw_host = Some ''db.example.com'', kw_port = None,
       kw_database = Some ''shop'', kw_user = Some ''admin'', kw_password = Some ''s3cret'',
       kw_ssl = None \<rparr>"

definition mysql_both :: mysql_connect_kwargs where
  "mysql_both = mysql_explicit \<lparr> kw_secret_name := Some ''db-secret'' \<rparr>"

definition mysql_neither :: mysql_connect_kwargs where
  "mysql_neither =
     \<lparr> kw_secret_name = None, kw_host = None, kw_port = None, kw_database = None,
       kw_user = None, kw_password = None, kw_ssl = None \<rparr>"

definition mysql_password_only :: mysql_connect_kwargs where
  "mysql_password_only = mysql_neither \<lparr> kw_secret_name := Some ''password-only'' \<rparr>"

text \<open>The same four calls of \<open>RedshiftService.connect_psycopg2\<close>, the first with a port.\<close>

definition redshift_explicit :: connect_kwargs where
  "redshift_explicit =
     \<lparr> kw_secret_name = None, kw_host = Some ''wh.example.com'', kw_port = Some 5440,
       kw_database = Some ''dev'', kw_user = Some ''analyst'', kw_password = Some ''s3cret'' \<rparr>"

definition redshift_both :: connect_kwargs where
  "redshift_both = redshift_explicit \<lparr> kw_secret_name := Some ''db-secret'' \<rparr>"

definition redshift_neither :: connect_kwargs where
  "redshift_neither =
     \<lparr> kw_secret_name = None, kw_host = None, kw_port = None, kw_database = None,
       kw_user = None, kw_password = None \<rparr>"

definition redshift_password_only :: connect_kwargs where
  "redshift_password_only = redshift_neither \<lparr> kw_secret_name := Some ''password-only'' \<rparr>"

text \<open>
  Calls of \<open>execute_query_data_api\<close>: one that waits with \<open>poll_interval = 0.1\<close> and
  \<open>timeout = 0.5\<close>, one that waits with \<open>0.1\<close> and \<open>0.8\<close>, one that waits like the
  first on a workgroup, one that names a cluster and a workgroup and does not wait, and
  one that names no target.
\<close>

definition waiting_query :: data_api_kwargs where
  "waiting_query =
     \<lparr> sql = ''SELECT 1 AS test'', api_database = ''dev'',
       cluster_identifier = Some ''cluster-1'', workgroup_name = None, db_user = None,
       secret_arn = None, wait = True,
       poll_interval = round_double (1 / 10), timeout = round_double (1 / 2) \<rparr>"

definition longer_query :: data_api_kwargs where
  "longer_query = waiting_query \<lparr> timeout := round_double (8 / 10) \<rparr>"

definition workgroup_query :: data_api_kwargs where
  "workgroup_query =
     waiting_query \<lparr> cluster_identifier := None, workgroup_name := Some ''workgroup-1'' \<rparr>"

definition both_targets_query :: data_api_kwargs where
  "both_targets_query =
     waiting_query \<lparr> workgroup_name := Some ''workgroup-1'', wait := False \<rparr>"

definition no_target_query :: data_api_kwargs where
  "no_target_query = waiting_query \<lparr> cluster_identifier := None \<rparr>"

section \<open>Properties of \<open>get_secret\<close>\<close>

text \<open>
  C9. When the vault answers with a \<open>SecretString\<close> that parses as JSON, \<open>get_secret\<close>
  returns the parsed value itself, whatever its type: a list, a number, a boolean or a
  string comes back as it is, not wrapped under \<open>secret\<close>. The empty string is not JSON,
  hence \<open>s \<noteq> []\<close>.
\<close>

theorem get_secret_returns_parsed_json:
  assumes "get_secret_value w secret_name = Inr response"
    and "SecretString response = Some s"
    and "s \<noteq> []"
    and "json_loads w s = Some v"
  shows "get_secret w secret_name = (Inr v, [GetSecretValue secret_name])"
  using assms by (simp add: get_secret_def)

theorem get_secret_returns_parsed_json_witness:
  "get_secret example_world ''list-secret''
     = (Inr (PList [PInt 1, PInt 2]), [GetSecretValue ''list-secret''])"
proof -
  have r: "get_secret_value example_world ''list-secret''
             = Inr \<lparr> SecretString = Some ''[1, 2]'', SecretBinary = None \<rparr>"
    by (simp add: example_world_def)
  have j: "json_loads example_world ''[1, 2]'' = Some (PList [PInt 1, PInt 2])"
    by (simp add: example_world_def)
  show ?thesis
    by (rule get_secret_returns_parsed_json [OF r _ _ j]) simp_all
qed

text \<open>
  C10. When the vault answers with an empty \<open>SecretString\<close> and no \<open>SecretBinary\<close>,
  \<open>get_secret\<close> takes the string for absent and raises the \<open>ValueError\<close> of a missing
  payload; it does not return \<open>{"secret": ""}\<close>.
\<close>

theorem get_secret_empty_string_is_missing:
  assumes "get_secret_value w secret_name = Inr response"
    and "SecretString response = Some []"
    and "SecretBinary response = None"
  shows "get_secret w secret_name
           = (Inl (ValueError ''Secret did not contain SecretString or SecretBinary''),
              [GetSecretValue secret_name])"
  using assms by (simp add: get_secret_def)

theorem get_secret_empty_string_is_missing_witness:
  "get_secret example_world ''empty-secret''
     = (Inl (ValueError ''Secret did not contain SecretString or SecretBinary''),
        [GetSecretValue ''empty-secret''])"
proof -
  have r: "get_secret_value example_world ''empty-secret''
             = Inr \<lparr> SecretString = Some [], SecretBinary = None \<rparr>"
    by (simp add: example_world_def)
  show ?thesis
    by (rule get_secret_empty_string_is_missing [OF r]) simp_all
qed

section \<open>Properties of the cell decoder\<close>

lemma decode_cell_first_key:
  assumes "d \<noteq> []"
    and "map_of d ''stringValue'' = None" and "map_of d ''longValue'' = None"
    and "map_of d ''doubleValue'' = None" and "map_of d ''booleanValue'' = None"
    and "map_of d ''isNull'' = None \<or> \<not> truthy (dict_get d ''isNull'')"
  shows "decode_cell (PDict d) = Inr (snd (hd d))"
proof -
  obtain k v rest where d: "d = (k, v) # rest"
    using assms(1) by (cases d) auto
  have "dict_get d (hd (map fst d)) = v"
    by (simp add: d dict_get_def)
  then show ?thesis
    using assms by (auto simp: decode_cell_def d)
qed

subsection \<open>Pages\<close>

text \<open>
  On a page whose columns all have a name and whose cells are dicts (or false values),
  nothing fails, and every row is the empty dict to which each column and the decoded
  value of its cell were added, in the order of the columns.
\<close>

lemma decode_cell_total:
  "\<not> truthy item \<or> (\<exists>d. item = PDict d) \<Longrightarrow> decode_cell item = Inr (projr (decode_cell item))"
  by (auto simp: decode_cell_def Let_def)

lemma decode_record_updates:
  "\<forall>item \<in> set r. \<not> truthy item \<or> (\<exists>d. item = PDict d) \<Longrightarrow>
   decode_record acc (zip columns r)
     = Inr (AList.updates columns (map (\<lambda>item. projr (decode_cell item)) r) acc)"
proof (induction columns arbitrary: r acc)
  case Nil
  then show ?case by simp
next
  case (Cons c columns)
  show ?case
  proof (cases r)
    case Nil
    then show ?thesis by simp
  next
    case (Cons item rest)
    with Cons.prems have ok: "\<not> truthy item \<or> (\<exists>d. item = PDict d)"
      and rest: "\<forall>item \<in> set rest. \<not> truthy item \<or> (\<exists>d. item = PDict d)"
      by simp_all
    have "decode_cell item = Inr (projr (decode_cell item))"
      using ok by (rule decode_cell_total)
    then obtain v where v: "decode_cell item = Inr v" ..
    show ?thesis
      using Cons.IH [OF rest] by (simp add: Cons v)
  qed
qed

lemma decode_records_rows:
  "\<forall>r \<in> set records. \<forall>item \<in> set r. \<not> truthy item \<or> (\<exists>d. item = PDict d) \<Longrightarrow>
   decode_records columns rows records
     = Inr (rows @ map (\<lambda>r. AList.updates columns (map (\<lambda>item. projr (decode_cell item)) r) [])
                       records)"
proof (induction records arbitrary: rows)
  case Nil
  then show ?case by simp
next
  case (Cons r records)
  then show ?case
    by (simp add: decode_record_updates)
qed

lemma column_names_named:
  "map (\<lambda>col. map_of col ''name'') cm = map Some columns \<Longrightarrow> column_names cm = Inr columns"
  by (induction cm arbitrary: columns) auto

lemma updates_fresh:
  "distinct ks \<Longrightarrow> set ks \<inter> fst ` set al = {} \<Longrightarrow> AList.updates ks vs al = al @ zip ks vs"
proof (induction ks arbitrary: vs al)
  case Nil
  then show ?case by simp
next
  case (Cons k ks)
  show ?case
  proof (cases vs)
    case Nil
    then show ?thesis by simp
  next
    case (Cons v vs')
    have fresh: "k \<notin> fst ` set al"
      using Cons.prems(2) by auto
    then have upd: "AList.update k v al = al @ [(k, v)]"
      by (induction al) auto
    have "set ks \<inter> fst ` set (al @ [(k, v)]) = {}"
      using Cons.prems by auto
    then have "AList.updates ks vs' (al @ [(k, v)]) = (al @ [(k, v)]) @ zip ks vs'"
      using Cons.IH Cons.prems(1) by simp
    then show ?thesis
      by (simp add: Cons upd)
  qed
qed

lemma decode_result_rows:
  assumes names: "map (\<lambda>col. map_of col ''name'')
                      (case ColumnMetadata result of None \<Rightarrow> [] | Some cm \<Rightarrow> cm) = map Some columns"
    and records: "(case Records result of None \<Rightarrow> [] | Some rs \<Rightarrow> rs) = records"
    and cells: "\<forall>r \<in> set records. \<forall>item \<in> set r. \<not> truthy item \<or> (\<exists>d. item = PDict d)"
  shows "\<exists>rows. decode_result result = Inr rows \<and> length rows = length records
           \<and> (\<forall>i<length records.
                 map_of (rows ! i)
                   = Map.empty (columns [\<mapsto>] map (\<lambda>item. projr (decode_cell item)) (records ! i))
                 \<and> distinct (map fst (rows ! i))
                 \<and> (distinct columns \<longrightarrow>
                       rows ! i = zip columns (map (\<lambda>item. projr (decode_cell item)) (records ! i))))"
proof -
  let ?row = "\<lambda>r. AList.updates columns (map (\<lambda>item. projr (decode_cell item)) r) []"
  have "decode_result result = Inr (map ?row records)"
    using column_names_named [OF names] decode_records_rows [OF cells, of columns "[]"]
    by (simp add: decode_result_def records)
  moreover have "map_of (?row r) = Map.empty (columns [\<mapsto>] map (\<lambda>item. projr (decode_cell item)) r)" for r
    by (simp add: updates_conv')
  moreover have "distinct (map fst (?row r))" for r
    by (simp add: distinct_updates)
  moreover have "distinct columns \<longrightarrow> ?row r = zip columns (map (\<lambda>item. projr (decode_cell item)) r)" for r
    by (simp add: updates_fresh)
  ultimately show ?thesis
    by simp
qed

text \<open>
  C2. A cell is decoded by the first of \<open>stringValue\<close>, \<open>longValue\<close>, \<open>doubleValue\<close>,
  \<open>booleanValue\<close> that it has, in this order; after them a true \<open>isNull\<close> gives
  \<open>None\<close>; a cell that has none of the five keys decodes to the value of its first key
  and does not fail. This is how every page is decoded: for every page whose columns are
  named and whose cells are dicts, the result has one row for each record, in order, and a
  row maps each column to the decoded value of the cell at its position (for columns with
  different names, the row is the list of the columns paired with the decoded cells). The
  page with columns \<open>a\<close>, \<open>b\<close> and the record \<open>[{"stringValue": "x"}, {"isNull": true}]\<close>
  decodes to \<open>[{"a": "x", "b": None}]\<close>.
\<close>

theorem decode_cell_tag_order:
  "(\<forall>d v. map_of d ''stringValue'' = Some v \<longrightarrow> decode_cell (PDict d) = Inr v)
   \<and> (\<forall>d v. map_of d ''stringValue'' = None \<and> map_of d ''longValue'' = Some v
          \<longrightarrow> decode_cell (PDict d) = Inr v)
   \<and> (\<forall>d v. map_of d ''stringValue'' = None \<and> map_of d ''longValue'' = None
          \<and> map_of d ''doubleValue'' = Some v
          \<longrightarrow> decode_cell (PDict d) = Inr v)
   \<and> (\<forall>d v. map_of d ''stringValue'' = None \<and> map_of d ''longValue'' = None
          \<and> map_of d ''doubleValue'' = None \<and> map_of d ''booleanValue'' = Some v
          \<longrightarrow> decode_cell (PDict d) = Inr v)
   \<and> (\<forall>d v. map_of d ''stringValue'' = None \<and> map_of d ''longValue'' = None
          \<and> map_of d ''doubleValue'' = None \<and> map_of d ''booleanValue'' = None
          \<and> map_of d ''isNull'' = Some v \<and> truthy v
          \<longrightarrow> decode_cell (PDict d) = Inr PNone)
   \<and> (\<forall>d. d \<noteq> [] \<and> map_of d ''stringValue'' = None \<and> map_of d ''longValue'' = None
          \<and> map_of d ''doubleValue'' = None \<and> map_of d ''booleanValue'' = None
          \<and> map_of d ''isNull'' = None
          \<longrightarrow> decode_cell (PDict d) = Inr (snd (hd d)))
   \<and> (\<forall>result columns records.
          map (\<lambda>col. map_of col ''name'')
              (case ColumnMetadata result of None \<Rightarrow> [] | Some cm \<Rightarrow> cm) = map Some columns
          \<and> (case Records result of None \<Rightarrow> [] | Some rs \<Rightarrow> rs) = records
          \<and> (\<forall>r \<in> set records. \<forall>item \<in> set r. \<not> truthy item \<or> (\<exists>d. item = PDict d))
          \<longrightarrow> (\<exists>rows. decode_result result = Inr rows \<and> length rows = length records
                \<and> (\<forall>i<length records.
                      map_of (rows ! i)
                        = Map.empty (columns [\<mapsto>] map (\<lambda>item. projr (decode_cell item))
                                                       (records ! i))
                      \<and> distinct (map fst (rows ! i))
                      \<and> (distinct columns \<longrightarrow>
                            rows ! i = zip columns (map (\<lambda>item. projr (decode_cell item))
                                                       (records ! i))))))
   \<and> decode_result \<lparr> ColumnMetadata = Some [[(''name'', ''a'')], [(''name'', ''b'')]],
                      Records = Some [[PDict [(''stringValue'', PStr ''x'')],
                                       PDict [(''isNull'', PBool True)]]] \<rparr>
       = Inr [[(''a'', PStr ''x''), (''b'', PNone)]]"
proof (intro conjI allI impI)
  fix d :: "(string \<times> pyval) list" and v
  assume "map_of d ''stringValue'' = Some v"
  then show "decode_cell (PDict d) = Inr v"
    by (cases d) (auto simp: decode_cell_def dict_get_def)
next
  fix d :: "(string \<times> pyval) list" and v
  assume "map_of d ''stringValue'' = None \<and> map_of d ''longValue'' = Some v"
  then show "decode_cell (PDict d) = Inr v"
    by (cases d) (auto simp: decode_cell_def dict_get_def)
next
  fix d :: "(string \<times> pyval) list" and v
  assume "map_of d ''stringValue'' = None \<and> map_of d ''longValue'' = None
          \<and> map_of d ''doubleValue'' = Some v"
  then show "decode_cell (PDict d) = Inr v"
    by (cases d) (auto simp: decode_cell_def dict_get_def)
next
  fix d :: "(string \<times> pyval) list" and v
  assume "map_of d ''stringValue'' = None \<and> map_of d ''longValue'' = None
          \<and> map_of d ''doubleValue'' = None \<and> map_of d ''booleanValue'' = Some v"
  then show "decode_cell (PDict d) = Inr v"
    by (cases d) (auto simp: decode_cell_def dict_get_def)
next
  fix d :: "(string \<times> pyval) list" and v
  assume "map_of d ''stringValue'' = None \<and> map_of d ''longValue'' = None
          \<and> map_of d ''doubleValue'' = None \<and> map_of d ''booleanValue'' = None
          \<and> map_of d ''isNull'' = Some v \<and> truthy v"
  then show "decode_cell (PDict d) = Inr PNone"
    by (cases d) (auto simp: decode_cell_def dict_get_def)
next
  fix d :: "(string \<times> pyval) list"
  assume "d \<noteq> [] \<and> map_of d ''stringValue'' = None \<and> map_of d ''longValue'' = None
          \<and> map_of d ''doubleValue'' = None \<and> map_of d ''booleanValue'' = None
          \<and> map_of d ''isNull'' = None"
  then show "decode_cell (PDict d) = Inr (snd (hd d))"
    by (simp add: decode_cell_first_key)
next
  fix result :: statement_result and columns records
  assume "map (\<lambda>col. map_of col ''name'')
              (case ColumnMetadata result of None \<Rightarrow> [] | Some cm \<Rightarrow> cm) = map Some columns
          \<and> (case Records result of None \<Rightarrow> [] | Some rs \<Rightarrow> rs) = records
          \<and> (\<forall>r \<in> set records. \<forall>item \<in> set r. \<not> truthy item \<or> (\<exists>d. item = PDict d))"
  then show "\<exists>rows. decode_result result = Inr rows \<and> length rows = length records
                \<and> (\<forall>i<length records.
                      map_of (rows ! i)
                        = Map.empty (columns [\<mapsto>] map (\<lambda>item. projr (decode_cell item))
                                                       (records ! i))
                      \<and> distinct (map fst (rows ! i))
                      \<and> (distinct columns \<longrightarrow>
                            rows ! i = zip columns (map (\<lambda>item. projr (decode_cell item))
                                                       (records ! i))))"
    using decode_result_rows [of result columns records] by blast
next
  show "decode_result \<lparr> ColumnMetadata = Some [[(''name'', ''a'')], [(''name'', ''b'')]],
                      Records = Some [[PDict [(''stringValue'', PStr ''x'')],
                                       PDict [(''isNull'', PBool True)]]] \<rparr>
       = Inr [[(''a'', PStr ''x''), (''b'', PNone)]]"
    by (simp add: decode_result_def decode_cell_def dict_get_def)
qed

theorem decode_cell_tag_order_witness:
  "decode_cell (PDict [(''longValue'', PInt 7), (''stringValue'', PStr ''x'')]) = Inr (PStr ''x'')
   \<and> decode_cell (PDict [(''doubleValue'', PFloat (Finite (3 / 2))), (''longValue'', PInt 7)])
       = Inr (PInt 7)
   \<and> decode_cell (PDict [(''booleanValue'', PBool True), (''doubleValue'', PFloat (Finite (3 / 2)))])
       = Inr (PFloat (Finite (3 / 2)))
   \<and> decode_cell (PDict [(''isNull'', PBool True), (''booleanValue'', PBool False)])
       = Inr (PBool False)
   \<and> decode_cell (PDict [(''blobValue'', PBytes ''ab''), (''isNull'', PBool True)]) = Inr PNone
   \<and> decode_cell (PDict [(''blobValue'', PBytes ''ab''), (''other'', PInt 1)]) = Inr (PBytes ''ab'')
   \<and> decode_result \<lparr> ColumnMetadata = Some [[(''name'', ''id'')], [(''name'', ''ok'')]],
                      Records = Some [[PDict [(''longValue'', PInt 1)],
                                       PDict [(''booleanValue'', PBool True)]],
                                      [PDict [(''longValue'', PInt 2)],
                                       PDict [(''isNull'', PBool True)]]] \<rparr>
       = Inr [[(''id'', PInt 1), (''ok'', PBool True)], [(''id'', PInt 2), (''ok'', PNone)]]"
proof -
  note t = decode_cell_tag_order
  note by_string = t [THEN conjunct1, rule_format]
  note by_long = t [THEN conjunct2, THEN conjunct1, rule_format]
  note by_double = t [THEN conjunct2, THEN conjunct2, THEN conjunct1, rule_format]
  note by_boolean = t [THEN conjunct2, THEN conjunct2, THEN conjunct2, THEN conjunct1, rule_format]
  note by_null = t [THEN conjunct2, THEN conjunct2, THEN conjunct2, THEN conjunct2,
                    THEN conjunct1, rule_format]
  note by_first = t [THEN conjunct2, THEN conjunct2, THEN conjunct2, THEN conjunct2,
                     THEN conjunct2, THEN conjunct1, rule_format]
  note by_page = t [THEN conjunct2, THEN conjunct2, THEN conjunct2, THEN conjunct2,
                    THEN conjunct2, THEN conjunct2, THEN conjunct1, rule_format]
  have c1: "decode_cell (PDict [(''longValue'', PInt 7), (''stringValue'', PStr ''x'')])
              = Inr (PStr ''x'')"
    by (rule by_string) simp
  have c2: "decode_cell (PDict [(''doubleValue'', PFloat (Finite (3 / 2))), (''longValue'', PInt 7)])
              = Inr (PInt 7)"
    by (rule by_long) simp
  have c3: "decode_cell (PDict [(''booleanValue'', PBool True), (''doubleValue'', PFloat (Finite (3 / 2)))])
              = Inr (PFloat (Finite (3 / 2)))"
    by (rule by_double) simp
  have c4: "decode_cell (PDict [(''isNull'', PBool True), (''booleanValue'', PBool False)])
              = Inr (PBool False)"
    by (rule by_boolean) simp
  have c5: "decode_cell (PDict [(''blobValue'', PBytes ''ab''), (''isNull'', PBool True)])
              = Inr PNone"
    by (rule by_null [of _ "PBool True"]) simp
  have c6: "decode_cell (PDict [(''blobValue'', PBytes ''ab''), (''other'', PInt 1)])
              = Inr (PBytes ''ab'')"
    using by_first [of "[(''blobValue'', PBytes ''ab''), (''other'', PInt 1)]"] by simp
  let ?r0 = "[PDict [(''longValue'', PInt 1)], PDict [(''booleanValue'', PBool True)]]"
  let ?r1 = "[PDict [(''longValue'', PInt 2)], PDict [(''isNull'', PBool True)]]"
  let ?page = "\<lparr> ColumnMetadata = Some [[(''name'', ''id'')], [(''name'', ''ok'')]],
                 Records = Some [?r0, ?r1] \<rparr>"
  have cells: "decode_cell (PDict [(''longValue'', PInt 1)]) = Inr (PInt 1)"
    "decode_cell (PDict [(''booleanValue'', PBool True)]) = Inr (PBool True)"
    "decode_cell (PDict [(''longValue'', PInt 2)]) = Inr (PInt 2)"
    "decode_cell (PDict [(''isNull'', PBool True)]) = Inr PNone"
    by (rule by_long, simp) (rule by_boolean, simp, rule by_long, simp,
        rule by_null [of _ "PBool True"], simp)
  have page: "map (\<lambda>col. map_of col ''name'')
                  (case ColumnMetadata ?page of None \<Rightarrow> [] | Some cm \<Rightarrow> cm)
                = map Some [''id'', ''ok'']
              \<and> (case Records ?page of None \<Rightarrow> [] | Some rs \<Rightarrow> rs) = [?r0, ?r1]
              \<and> (\<forall>r \<in> set [?r0, ?r1]. \<forall>item \<in> set r. \<not> truthy item \<or> (\<exists>d. item = PDict d))"
    by simp
  from by_page [OF page] obtain rows where rows: "decode_result ?page = Inr rows"
    and len: "length rows = length [?r0, ?r1]"
    and each: "\<forall>i<length [?r0, ?r1]. distinct [''id'', ''ok''] \<longrightarrow>
                 rows ! i = zip [''id'', ''ok'']
                              (map (\<lambda>item. projr (decode_cell item)) ([?r0, ?r1] ! i))"
    by blast
  have "rows ! 0 = [(''id'', PInt 1), (''ok'', PBool True)]"
    using each [rule_format, of 0] by (simp add: cells)
  moreover have "rows ! 1 = [(''id'', PInt 2), (''ok'', PNone)]"
    using each [rule_format, of 1] by (simp add: cells)
  moreover have "length rows = 2"
    using len by simp
  then have "rows = [rows ! 0, rows ! 1]"
    by (cases rows; cases "tl rows"; cases "tl (tl rows)") auto
  ultimately have c7: "decode_result ?page
      = Inr [[(''id'', PInt 1), (''ok'', PBool True)], [(''id'', PInt 2), (''ok'', PNone)]]"
    using rows by simp
  from c1 c2 c3 c4 c5 c6 c7 show ?thesis by simp
qed

text \<open>
  C8. The cell \<open>{"isNull": false}\<close> does not decode to \<open>None\<close>: the \<open>isNull\<close> branch
  wants a true value, so the cell reaches the last branch and decodes to \<open>False\<close>, the
  value of its first key. Every false cell (\<open>None\<close>, the empty dict) decodes to \<open>None\<close>.
\<close>

theorem isNull_false_decodes_to_False:
  "decode_cell (PDict [(''isNull'', PBool False)]) = Inr (PBool False)
   \<and> (\<forall>item. \<not> truthy item \<longrightarrow> decode_cell item = Inr PNone)"
  by (simp add: decode_cell_def dict_get_def)

theorem isNull_false_decodes_to_False_witness:
  "\<not> truthy (PDict []) \<and> decode_cell (PDict []) = Inr PNone
   \<and> \<not> truthy PNone \<and> decode_cell PNone = Inr PNone"
  using isNull_false_decodes_to_False by simp

section \<open>Properties of the context managers\<close>

subsection \<open>Events of the parts\<close>

lemma get_secret_events:
  "snd (get_secret w n) = [GetSecretValue n]
   \<or> snd (get_secret w n) = [GetSecretValue n, LogException (''Failed to fetch secret '' @ n)]"
  by (simp add: get_secret_def Let_def split: sum.splits)

lemma RdsMySQL_params_from_secret_events:
  "snd (RdsMySQL_params_from_secret w n) = snd (get_secret w n)"
  by (cases "get_secret w n")
     (auto simp: RdsMySQL_params_from_secret_def split: sum.splits pyval.splits)

lemma params_from_secret_events:
  "snd (params_from_secret w n) = snd (get_secret w n)"
  by (cases "get_secret w n")
     (auto simp: params_from_secret_def split: sum.splits pyval.splits)

lemma closes_append: "closes (xs @ ys) = closes xs @ closes ys"
  by (induction xs rule: closes.induct) auto

lemma vault_calls_append: "vault_calls (xs @ ys) = vault_calls xs @ vault_calls ys"
  by (induction xs rule: vault_calls.induct) auto

lemma yield_and_close_closes:
  "closes (snd (yield_and_close msg conn body)) = [conn_id conn]"
  by (simp add: yield_and_close_def Let_def split: option.splits)

lemma yield_and_close_events:
  "snd (yield_and_close msg conn body) = [Yield, Close (conn_id conn)]
   \<or> snd (yield_and_close msg conn body) = [Yield, Close (conn_id conn), LogException msg]"
  by (simp add: yield_and_close_def Let_def split: option.splits)

lemma yield_and_close_outcome:
  "close_raises conn = None \<Longrightarrow> fst (yield_and_close msg conn body) = body conn"
  "close_raises conn = Some e \<Longrightarrow> is_Exception e \<Longrightarrow>
     fst (yield_and_close msg conn body) = body conn
     \<and> LogException msg \<in> set (snd (yield_and_close msg conn body))"
  "close_raises conn = Some e \<Longrightarrow> \<not> is_Exception e \<Longrightarrow>
     fst (yield_and_close msg conn body) = Inl e
     \<and> LogException msg \<notin> set (snd (yield_and_close msg conn body))"
  by (simp_all add: yield_and_close_def Let_def)

text \<open>
  What \<open>connect\<close> does, by the outcome of each step: the parameters are resolved, the
  driver is called, the block runs and the connection is closed.
\<close>

lemma connect_shape:
  "\<exists>res pre. (\<forall>c. Close c \<notin> set pre) \<and> (\<forall>p. PyMySQLConnect p \<notin> set pre)
     \<and> LogException ''Error closing MySQL connection'' \<notin> set pre
     \<and> (case res of
           Inl e \<Rightarrow> connect w kw body = (Inl e, pre)
         | Inr params \<Rightarrow>
             (case pymysql_connect w params of
                Inl e \<Rightarrow> connect w kw body = (Inl e, pre @ [PyMySQLConnect params])
              | Inr conn \<Rightarrow>
                  connect w kw body =
                    (fst (yield_and_close ''Error closing MySQL connection'' conn body),
                     pre @ [PyMySQLConnect params]
                         @ snd (yield_and_close ''Error closing MySQL connection'' conn body))))"
proof (cases "given (kw_secret_name kw)")
  case True
  obtain res pre where r: "RdsMySQL_params_from_secret w (the (kw_secret_name kw)) = (res, pre)"
    by (cases "RdsMySQL_params_from_secret w (the (kw_secret_name kw))")
  have pre: "pre = snd (get_secret w (the (kw_secret_name kw)))"
    using RdsMySQL_params_from_secret_events [of w "the (kw_secret_name kw)"] r by simp
  have "(\<forall>c. Close c \<notin> set pre) \<and> (\<forall>p. PyMySQLConnect p \<notin> set pre)
        \<and> LogException ''Error closing MySQL connection'' \<notin> set pre"
    using get_secret_events [of w "the (kw_secret_name kw)"] pre by auto
  moreover have "case res of
           Inl e \<Rightarrow> connect w kw body = (Inl e, pre)
         | Inr params \<Rightarrow>
             (case pymysql_connect w params of
                Inl e \<Rightarrow> connect w kw body = (Inl e, pre @ [PyMySQLConnect params])
              | Inr conn \<Rightarrow>
                  connect w kw body =
                    (fst (yield_and_close ''Error closing MySQL connection'' conn body),
                     pre @ [PyMySQLConnect params]
                         @ snd (yield_and_close ''Error closing MySQL connection'' conn body)))"
    using True r by (auto simp: connect_def split: sum.splits prod.splits)
  ultimately show ?thesis by blast
next
  case False
  show ?thesis
  proof (cases "\<not> given (kw_host kw) \<or> \<not> given (kw_user kw)")
    case True
    show ?thesis
      apply (rule exI [of _ "Inl (ValueError ''host and user must be provided if secret_name is not used'')"])
      apply (rule exI [of _ "[]"])
      using False True by (auto simp: connect_def)
  next
    case nv: False
    show ?thesis
      apply (rule exI [of _ "Inr \<lparr> host = opt_str (kw_host kw),
                        port = (case kw_port kw of None \<Rightarrow> 3306 | Some p \<Rightarrow> p),
                        database = opt_str (kw_database kw),
                        user = opt_str (kw_user kw),
                        password = opt_str (kw_password kw),
                        connect_timeout = 10,
                        ssl = (case kw_ssl kw of None \<Rightarrow> PNone | Some s \<Rightarrow> PDict s) \<rparr>"])
      apply (rule exI [of _ "[]"])
      using False nv by (auto simp: connect_def split: sum.splits prod.splits)
  qed
qed


lemma connect_psycopg2_shape:
  "\<exists>res pre. (\<forall>c. Close c \<notin> set pre) \<and> (\<forall>p. Psycopg2Connect p \<notin> set pre)
     \<and> LogException ''Error closing Redshift psycopg2 connection'' \<notin> set pre
     \<and> (case res of
           Inl e \<Rightarrow> connect_psycopg2 w kw body = (Inl e, pre)
         | Inr params \<Rightarrow>
             (case psycopg2_connect w params of
                Inl e \<Rightarrow> connect_psycopg2 w kw body = (Inl e, pre @ [Psycopg2Connect params])
              | Inr conn \<Rightarrow>
                  connect_psycopg2 w kw body =
                    (fst (yield_and_close ''Error closing Redshift psycopg2 connection'' conn body),
                     pre @ [Psycopg2Connect params]
                         @ snd (yield_and_close ''Error closing Redshift psycopg2 connection'' conn body))))"
proof (cases "given (kw_secret_name kw)")
  case True
  obtain res pre where r: "params_from_secret w (the (kw_secret_name kw)) = (res, pre)"
    by (cases "params_from_secret w (the (kw_secret_name kw))")
  have pre: "pre = snd (get_secret w (the (kw_secret_name kw)))"
    using params_from_secret_events [of w "the (kw_secret_name kw)"] r by simp
  have "(\<forall>c. Close c \<notin> set pre) \<and> (\<forall>p. Psycopg2Connect p \<notin> set pre)
        \<and> LogException ''Error closing Redshift psycopg2 connection'' \<notin> set pre"
    using get_secret_events [of w "the (kw_secret_name kw)"] pre by auto
  moreover have "case res of
           Inl e \<Rightarrow> connect_psycopg2 w kw body = (Inl e, pre)
         | Inr params \<Rightarrow>
             (case psycopg2_connect w params of
                Inl e \<Rightarrow> connect_psycopg2 w kw body = (Inl e, pre @ [Psycopg2Connect params])
              | Inr conn \<Rightarrow>
                  connect_psycopg2 w kw body =
                    (fst (yield_and_close ''Error closing Redshift psycopg2 connection'' conn body),
                     pre @ [Psycopg2Connect params]
                         @ snd (yield_and_close ''Error closing Redshift psycopg2 connection'' conn body)))"
    using True r by (auto simp: connect_psycopg2_def split: sum.splits prod.splits)
  ultimately show ?thesis by blast
next
  case False
  show ?thesis
  proof (cases "\<not> given (kw_host kw) \<or> \<not> given (kw_user kw)")
    case True
    show ?thesis
      apply (rule exI [of _ "Inl (ValueError ''host and user must be provided if secret_name is not used'')"])
      apply (rule exI [of _ "[]"])
      using False True by (auto simp: connect_psycopg2_def)
  next
    case nv: False
    show ?thesis
      apply (rule exI [of _ "Inr \<lparr> host = opt_str (kw_host kw),
                        port = (case kw_port kw of None \<Rightarrow> 5439 | Some p \<Rightarrow> p),
                        database = opt_str (kw_database kw),
                        user = opt_str (kw_user kw),
                        password = opt_str (kw_password kw) \<rparr>"])
      apply (rule exI [of _ "[]"])
      using False nv by (auto simp: connect_psycopg2_def split: sum.splits prod.splits)
  qed
qed

lemma closes_none: "\<forall>c. Close c \<notin> set xs \<Longrightarrow> closes xs = []"
  by (induction xs rule: closes.induct) auto

lemma connect_closes_once:
  assumes run: "connect w kw body = (outcome, evs)"
    and called: "PyMySQLConnect p \<in> set evs"
    and opened: "pymysql_connect w p = Inr conn"
  shows "closes evs = [conn_id conn]
         \<and> (case close_raises conn of
               None \<Rightarrow> outcome = body conn
             | Some e \<Rightarrow>
                 if is_Exception e
                 then outcome = body conn \<and> LogException ''Error closing MySQL connection'' \<in> set evs
                 else outcome = Inl e \<and> LogException ''Error closing MySQL connection'' \<notin> set evs)"
proof -
  let ?msg = "''Error closing MySQL connection''"
  obtain res pre where pre: "\<forall>c. Close c \<notin> set pre" "\<forall>p. PyMySQLConnect p \<notin> set pre"
      "LogException ?msg \<notin> set pre"
    and shape: "case res of
           Inl e \<Rightarrow> connect w kw body = (Inl e, pre)
         | Inr params \<Rightarrow>
             (case pymysql_connect w params of
                Inl e \<Rightarrow> connect w kw body = (Inl e, pre @ [PyMySQLConnect params])
              | Inr conn \<Rightarrow>
                  connect w kw body =
                    (fst (yield_and_close ?msg conn body),
                     pre @ [PyMySQLConnect params] @ snd (yield_and_close ?msg conn body)))"
    using connect_shape [of w kw body] by blast
  show ?thesis
  proof (cases res)
    case (Inl e)
    with shape run called pre show ?thesis by auto
  next
    case (Inr params)
    note yev = yield_and_close_events [of ?msg _ body]
    show ?thesis
    proof (cases "pymysql_connect w params")
      case (Inl e)
      with Inr shape run called pre opened show ?thesis by auto
    next
      case c: (Inr conn')
      have evs: "evs = pre @ [PyMySQLConnect params] @ snd (yield_and_close ?msg conn' body)"
        and out: "outcome = fst (yield_and_close ?msg conn' body)"
        using Inr c shape run by auto
      have "p = params"
        using called pre(2) yev [of conn'] unfolding evs by auto
      then have same: "conn' = conn"
        using c opened by simp
      have "closes evs = [conn_id conn]"
        unfolding evs same
        by (simp add: closes_append closes_none [OF pre(1)] yield_and_close_closes)
      moreover have "case close_raises conn of
               None \<Rightarrow> outcome = body conn
             | Some e \<Rightarrow>
                 if is_Exception e
                 then outcome = body conn \<and> LogException ?msg \<in> set evs
                 else outcome = Inl e \<and> LogException ?msg \<notin> set evs"
        unfolding evs out same
        using pre(3)
        by (auto simp: yield_and_close_outcome split: option.splits)
      ultimately show ?thesis by simp
    qed
  qed
qed

lemma connect_explicit:
  assumes "\<not> given (kw_secret_name kw)" and "given (kw_host kw)" and "given (kw_user kw)"
  shows "(\<exists>rest. snd (connect w kw body) =
            PyMySQLConnect \<lparr> host = opt_str (kw_host kw),
                             port = (case kw_port kw of None \<Rightarrow> 3306 | Some p \<Rightarrow> p),
                             database = opt_str (kw_database kw),
                             user = opt_str (kw_user kw),
                             password = opt_str (kw_password kw),
                             connect_timeout = 10,
                             ssl = (case kw_ssl kw of None \<Rightarrow> PNone | Some s \<Rightarrow> PDict s) \<rparr> # rest)
         \<and> vault_calls (snd (connect w kw body)) = []"
    (is "(\<exists>rest. _ = PyMySQLConnect ?P # rest) \<and> _")
proof (cases "pymysql_connect w ?P")
  case (Inl e)
  then have "connect w kw body = (Inl e, [PyMySQLConnect ?P])"
    using assms by (simp add: connect_def)
  then show ?thesis by simp
next
  case (Inr conn)
  let ?y = "yield_and_close ''Error closing MySQL connection'' conn body"
  have "connect w kw body = (fst ?y, PyMySQLConnect ?P # snd ?y)"
    using assms Inr by (simp add: connect_def split: prod.splits)
  moreover have "vault_calls (snd ?y) = []"
    using yield_and_close_events [of "''Error closing MySQL connection''" conn body] by auto
  ultimately show ?thesis by simp
qed

lemma connect_psycopg2_explicit:
  assumes "\<not> given (kw_secret_name kw)" and "given (kw_host kw)" and "given (kw_user kw)"
  shows "(\<exists>rest. snd (connect_psycopg2 w kw body) =
            Psycopg2Connect \<lparr> host = opt_str (kw_host kw),
                              port = (case kw_port kw of None \<Rightarrow> 5439 | Some p \<Rightarrow> p),
                              database = opt_str (kw_database kw),
                              user = opt_str (kw_user kw),
                              password = opt_str (kw_password kw) \<rparr> # rest)
         \<and> vault_calls (snd (connect_psycopg2 w kw body)) = []"
    (is "(\<exists>rest. _ = Psycopg2Connect ?P # rest) \<and> _")
proof (cases "psycopg2_connect w ?P")
  case (Inl e)
  then have "connect_psycopg2 w kw body = (Inl e, [Psycopg2Connect ?P])"
    using assms by (simp add: connect_psycopg2_def)
  then show ?thesis by simp
next
  case (Inr conn)
  let ?y = "yield_and_close ''Error closing Redshift psycopg2 connection'' conn body"
  have "connect_psycopg2 w kw body = (fst ?y, Psycopg2Connect ?P # snd ?y)"
    using assms Inr by (simp add: connect_psycopg2_def split: prod.splits)
  moreover have "vault_calls (snd ?y) = []"
    using yield_and_close_events [of "''Error closing Redshift psycopg2 connection''" conn body] by auto
  ultimately show ?thesis by simp
qed

lemma connect_secret_first:
  assumes "given (kw_secret_name kw)"
  shows "\<exists>rest. snd (connect w kw body) = GetSecretValue (the (kw_secret_name kw)) # rest"
proof -
  obtain res pre where r: "RdsMySQL_params_from_secret w (the (kw_secret_name kw)) = (res, pre)"
    by (cases "RdsMySQL_params_from_secret w (the (kw_secret_name kw))")
  have "\<exists>tl. pre = GetSecretValue (the (kw_secret_name kw)) # tl"
    using RdsMySQL_params_from_secret_events [of w "the (kw_secret_name kw)"]
      get_secret_events [of w "the (kw_secret_name kw)"] r by auto
  then show ?thesis
    using assms r by (auto simp: connect_def split: sum.splits prod.splits)
qed

lemma connect_psycopg2_secret_first:
  assumes "given (kw_secret_name kw)"
  shows "\<exists>rest. snd (connect_psycopg2 w kw body) = GetSecretValue (the (kw_secret_name kw)) # rest"
proof -
  obtain res pre where r: "params_from_secret w (the (kw_secret_name kw)) = (res, pre)"
    by (cases "params_from_secret w (the (kw_secret_name kw))")
  have "\<exists>tl. pre = GetSecretValue (the (kw_secret_name kw)) # tl"
    using params_from_secret_events [of w "the (kw_secret_name kw)"]
      get_secret_events [of w "the (kw_secret_name kw)"] r by auto
  then show ?thesis
    using assms r by (auto simp: connect_psycopg2_def split: sum.splits prod.splits)
qed

lemma connect_secret_ignores_explicit:
  "given (kw_secret_name kw) \<Longrightarrow>
   connect w kw body =
   connect w (kw\<lparr>kw_host := None, kw_port := None, kw_database := None, kw_user := None,
                 kw_password := None, kw_ssl := None\<rparr>) body"
  by (simp add: connect_def)

lemma connect_psycopg2_secret_ignores_explicit:
  "given (kw_secret_name kw) \<Longrightarrow>
   connect_psycopg2 w kw body =
   connect_psycopg2 w (kw\<lparr>kw_host := None, kw_port := None, kw_database := None, kw_user := None,
                 kw_password := None\<rparr>) body"
  by (simp add: connect_psycopg2_def)

lemma connect_neither:
  "\<not> given (kw_secret_name kw) \<Longrightarrow> \<not> given (kw_host kw) \<or> \<not> given (kw_user kw) \<Longrightarrow>
   connect w kw body
     = (Inl (ValueError ''host and user must be provided if secret_name is not used''), [])"
  by (auto simp: connect_def)

lemma connect_psycopg2_neither:
  "\<not> given (kw_secret_name kw) \<Longrightarrow> \<not> given (kw_host kw) \<or> \<not> given (kw_user kw) \<Longrightarrow>
   connect_psycopg2 w kw body
     = (Inl (ValueError ''host and user must be provided if secret_name is not used''), [])"
  by (auto simp: connect_psycopg2_def)

lemma RdsMySQL_params_without_host:
  assumes "get_secret w n = (Inr (PDict secret), evs)"
    and "py_int w (dict_get_default secret ''port'' (PInt 3306)) = Inr p"
  shows "\<exists>params. RdsMySQL_params_from_secret w n = (Inr params, evs)
           \<and> (map_of secret ''host'' = None \<and> map_of secret ''hostname'' = None
                \<and> map_of secret ''url'' = None \<longrightarrow> host params = PNone)
           \<and> (map_of secret ''username'' = None \<and> map_of secret ''user'' = None
                \<longrightarrow> user params = PNone)
           \<and> (\<forall>kw body. kw_secret_name kw = Some n \<and> n \<noteq> []
                \<longrightarrow> PyMySQLConnect params \<in> set (snd (connect w kw body)))"
  using assms
  by (auto simp: RdsMySQL_params_from_secret_def connect_def dict_get_def py_or_def
           split: sum.splits prod.splits)

lemma params_without_host:
  assumes "get_secret w n = (Inr (PDict secret), evs)"
    and "py_int w (dict_get_default secret ''port'' (PInt 5439)) = Inr p"
  shows "\<exists>params. params_from_secret w n = (Inr params, evs)
           \<and> (map_of secret ''host'' = None \<and> map_of secret ''endpoint'' = None
                \<and> map_of secret ''hostname'' = None \<longrightarrow> host params = PNone)
           \<and> (map_of secret ''username'' = None \<and> map_of secret ''user'' = None
                \<longrightarrow> user params = PNone)
           \<and> (\<forall>kw body. kw_secret_name kw = Some n \<and> n \<noteq> []
                \<longrightarrow> Psycopg2Connect params \<in> set (snd (connect_psycopg2 w kw body)))"
  using assms
  by (auto simp: params_from_secret_def connect_psycopg2_def dict_get_def py_or_def
           split: sum.splits prod.splits)

text \<open>
  C6. A call with explicit parameters (no secret name, a non-empty host and user) connects
  with exactly the values it was given, the port being 3306 for MySQL and 5439 for
  Redshift when the call leaves it out, and asks nothing of the vault.
\<close>

theorem explicit_parameters_used_unchanged:
  "(\<not> given (kw_secret_name kw) \<and> given (kw_host kw) \<and> given (kw_user kw) \<longrightarrow>
      (\<exists>rest. snd (connect w kw body) =
          PyMySQLConnect \<lparr> host = opt_str (kw_host kw),
                           port = (case kw_port kw of None \<Rightarrow> 3306 | Some p \<Rightarrow> p),
                           database = opt_str (kw_database kw),
                           user = opt_str (kw_user kw),
                           password = opt_str (kw_password kw),
                           connect_timeout = 10,
                           ssl = (case kw_ssl kw of None \<Rightarrow> PNone | Some s \<Rightarrow> PDict s) \<rparr> # rest)
      \<and> vault_calls (snd (connect w kw body)) = [])
   \<and> (\<not> given (kw_secret_name kw') \<and> given (kw_host kw') \<and> given (kw_user kw') \<longrightarrow>
      (\<exists>rest. snd (connect_psycopg2 w kw' body') =
          Psycopg2Connect \<lparr> host = opt_str (kw_host kw'),
                            port = (case kw_port kw' of None \<Rightarrow> 5439 | Some p \<Rightarrow> p),
                            database = opt_str (kw_database kw'),
                            user = opt_str (kw_user kw'),
                            password = opt_str (kw_password kw') \<rparr> # rest)
      \<and> vault_calls (snd (connect_psycopg2 w kw' body')) = [])"
  using connect_explicit [of kw w body] connect_psycopg2_explicit [of kw' w body']
  by blast

theorem explicit_parameters_used_unchanged_witness:
  "(\<exists>rest. snd (connect example_world mysql_explicit body_returns) =
       PyMySQLConnect \<lparr> host = PStr ''db.example.com'', port = 3306, database = PStr ''shop'',
                        user = PStr ''admin'', password = PStr ''s3cret'',
                        connect_timeout = 10, ssl = PNone \<rparr> # rest)
   \<and> vault_calls (snd (connect example_world mysql_explicit body_returns)) = []
   \<and> (\<exists>rest. snd (connect_psycopg2 example_world redshift_explicit body_returns) =
       Psycopg2Connect \<lparr> host = PStr ''wh.example.com'', port = 5440, database = PStr ''dev'',
                         user = PStr ''analyst'', password = PStr ''s3cret'' \<rparr> # rest)
   \<and> vault_calls (snd (connect_psycopg2 example_world redshift_explicit body_returns)) = []"
  using explicit_parameters_used_unchanged
          [of mysql_explicit example_world body_returns redshift_explicit body_returns]
  by (simp add: mysql_explicit_def redshift_explicit_def)

text \<open>
  C4, as the code has it. A call without a secret name that lacks a host or a user
  raises \<open>ValueError\<close> before anything leaves the process. A call with a secret name is
  not rejected, whatever explicit parameters come with it: the secret is fetched from the
  vault first, and the explicit parameters play no part.
\<close>

theorem secret_name_takes_precedence:
  "(\<not> given (kw_secret_name kw) \<and> (\<not> given (kw_host kw) \<or> \<not> given (kw_user kw)) \<longrightarrow>
      connect w kw body
        = (Inl (ValueError ''host and user must be provided if secret_name is not used''), []))
   \<and> (given (kw_secret_name kw) \<longrightarrow>
        (\<exists>rest. snd (connect w kw body) = GetSecretValue (the (kw_secret_name kw)) # rest)
        \<and> connect w kw body =
            connect w (kw\<lparr>kw_host := None, kw_port := None, kw_database := None,
                          kw_user := None, kw_password := None, kw_ssl := None\<rparr>) body)
   \<and> (\<not> given (kw_secret_name kw') \<and> (\<not> given (kw_host kw') \<or> \<not> given (kw_user kw')) \<longrightarrow>
      connect_psycopg2 w kw' body'
        = (Inl (ValueError ''host and user must be provided if secret_name is not used''), []))
   \<and> (given (kw_secret_name kw') \<longrightarrow>
        (\<exists>rest. snd (connect_psycopg2 w kw' body')
                   = GetSecretValue (the (kw_secret_name kw')) # rest)
        \<and> connect_psycopg2 w kw' body' =
            connect_psycopg2 w (kw'\<lparr>kw_host := None, kw_port := None, kw_database := None,
                                     kw_user := None, kw_password := None\<rparr>) body')"
  using connect_neither [of kw w body] connect_psycopg2_neither [of kw' w body']
    connect_secret_first [of kw w body] connect_psycopg2_secret_first [of kw' w body']
    connect_secret_ignores_explicit [of kw w body]
    connect_psycopg2_secret_ignores_explicit [of kw' w body']
  by blast

theorem secret_name_takes_precedence_witness:
  "connect example_world mysql_neither body_returns
     = (Inl (ValueError ''host and user must be provided if secret_name is not used''), [])
   \<and> (\<exists>rest. snd (connect example_world mysql_both body_returns)
                = GetSecretValue ''db-secret'' # rest)
   \<and> connect_psycopg2 example_world redshift_neither body_returns
     = (Inl (ValueError ''host and user must be provided if secret_name is not used''), [])
   \<and> (\<exists>rest. snd (connect_psycopg2 example_world redshift_both body_returns)
                = GetSecretValue ''db-secret'' # rest)"
proof -
  note neither = secret_name_takes_precedence
                   [of mysql_neither example_world body_returns redshift_neither body_returns]
  note both = secret_name_takes_precedence
                [of mysql_both example_world body_returns redshift_both body_returns]
  have n1: "\<not> given (kw_secret_name mysql_neither) \<and> \<not> given (kw_host mysql_neither)"
    by (simp add: mysql_neither_def)
  have n2: "\<not> given (kw_secret_name redshift_neither) \<and> \<not> given (kw_host redshift_neither)"
    by (simp add: redshift_neither_def)
  have b1: "given (kw_secret_name mysql_both) \<and> the (kw_secret_name mysql_both) = ''db-secret''"
    by (simp add: mysql_both_def)
  have b2: "given (kw_secret_name redshift_both)
            \<and> the (kw_secret_name redshift_both) = ''db-secret''"
    by (simp add: redshift_both_def)
  have "connect example_world mysql_neither body_returns
          = (Inl (ValueError ''host and user must be provided if secret_name is not used''), [])"
    using neither n1 by blast
  moreover have "\<exists>rest. snd (connect example_world mysql_both body_returns)
                         = GetSecretValue ''db-secret'' # rest"
    using both b1 by metis
  moreover have "connect_psycopg2 example_world redshift_neither body_returns
          = (Inl (ValueError ''host and user must be provided if secret_name is not used''), [])"
    using neither n2 by blast
  moreover have "\<exists>rest. snd (connect_psycopg2 example_world redshift_both body_returns)
                         = GetSecretValue ''db-secret'' # rest"
    using both b2 by metis
  ultimately show ?thesis by blast
qed

text \<open>
  The claim C4 fails where both are supplied: with the secret name \<open>db-secret\<close> and an
  explicit host and user, \<open>connect\<close> raises nothing, fetches the secret and connects with
  the parameters of the secret.
\<close>

theorem both_supplied_counterexample:
  "connect example_world mysql_both body_returns
     = (Inr 1,
        [GetSecretValue ''db-secret'',
         PyMySQLConnect \<lparr> host = PStr ''db.internal'', port = 3306, database = PNone,
                          user = PStr ''app'', password = PStr ''pw'',
                          connect_timeout = 10, ssl = PNone \<rparr>,
         Yield, Close 1])"
  by (simp add: connect_def mysql_both_def mysql_explicit_def RdsMySQL_params_from_secret_def
        get_secret_def example_world_def dict_get_def dict_get_default_def py_or_def
        yield_and_close_def body_returns_def)

text \<open>
  C5, as the code has it. Resolving a secret never fails for a missing host or user. When
  the secret is a dict and its port converts, the parameters are returned; they hold
  \<open>None\<close> for the host when the secret has none of the host keys (\<open>host\<close>, \<open>hostname\<close>,
  \<open>url\<close> for MySQL; \<open>host\<close>, \<open>endpoint\<close>, \<open>hostname\<close> for Redshift) and \<open>None\<close> for
  the user when it has neither \<open>username\<close> nor \<open>user\<close>; and the context manager goes on
  to call the driver with these parameters.
\<close>

theorem missing_host_or_user_is_passed_on:
  "(get_secret w n = (Inr (PDict secret), evs)
      \<and> py_int w (dict_get_default secret ''port'' (PInt 3306)) = Inr p \<longrightarrow>
      (\<exists>params. RdsMySQL_params_from_secret w n = (Inr params, evs)
         \<and> (map_of secret ''host'' = None \<and> map_of secret ''hostname'' = None
              \<and> map_of secret ''url'' = None \<longrightarrow> host params = PNone)
         \<and> (map_of secret ''username'' = None \<and> map_of secret ''user'' = None
              \<longrightarrow> user params = PNone)
         \<and> (\<forall>kw body. kw_secret_name kw = Some n \<and> n \<noteq> []
              \<longrightarrow> PyMySQLConnect params \<in> set (snd (connect w kw body)))))
   \<and> (get_secret w n = (Inr (PDict secret), evs)
      \<and> py_int w (dict_get_default secret ''port'' (PInt 5439)) = Inr p' \<longrightarrow>
      (\<exists>params. params_from_secret w n = (Inr params, evs)
         \<and> (map_of secret ''host'' = None \<and> map_of secret ''endpoint'' = None
              \<and> map_of secret ''hostname'' = None \<longrightarrow> host params = PNone)
         \<and> (map_of secret ''username'' = None \<and> map_of secret ''user'' = None
              \<longrightarrow> user params = PNone)
         \<and> (\<forall>kw body. kw_secret_name kw = Some n \<and> n \<noteq> []
              \<longrightarrow> Psycopg2Connect params \<in> set (snd (connect_psycopg2 w kw body)))))"
  using RdsMySQL_params_without_host [of w n secret evs p]
    params_without_host [of w n secret evs p']
  by blast

theorem missing_host_or_user_is_passed_on_witness:
  "(\<exists>params. RdsMySQL_params_from_secret example_world ''password-only''
                 = (Inr params, [GetSecretValue ''password-only''])
       \<and> host params = PNone \<and> user params = PNone
       \<and> PyMySQLConnect params
            \<in> set (snd (connect example_world mysql_password_only body_returns)))
   \<and> (\<exists>params. params_from_secret example_world ''password-only''
                 = (Inr params, [GetSecretValue ''password-only''])
       \<and> host params = PNone \<and> user params = PNone
       \<and> Psycopg2Connect params
            \<in> set (snd (connect_psycopg2 example_world redshift_password_only body_returns)))"
proof -
  note t = missing_host_or_user_is_passed_on
             [of example_world "''password-only''" "[(''password'', PStr ''pw'')]"
                 "[GetSecretValue ''password-only'']" 3306 5439]
  have s: "get_secret example_world ''password-only''
             = (Inr (PDict [(''password'', PStr ''pw'')]), [GetSecretValue ''password-only''])"
    by (simp add: get_secret_def example_world_def)
  have p1: "py_int example_world (dict_get_default [(''password'', PStr ''pw'')] ''port'' (PInt 3306))
              = Inr 3306"
    by (simp add: dict_get_default_def)
  have p2: "py_int example_world (dict_get_default [(''password'', PStr ''pw'')] ''port'' (PInt 5439))
              = Inr 5439"
    by (simp add: dict_get_default_def)
  have absent: "map_of [(''password'', PStr ''pw'')] ''host'' = None"
    "map_of [(''password'', PStr ''pw'')] ''hostname'' = None"
    "map_of [(''password'', PStr ''pw'')] ''url'' = None"
    "map_of [(''password'', PStr ''pw'')] ''endpoint'' = None"
    "map_of [(''password'', PStr ''pw'')] ''username'' = None"
    "map_of [(''password'', PStr ''pw'')] ''user'' = None"
    by simp_all
  have k1: "kw_secret_name mysql_password_only = Some ''password-only'' \<and> ''password-only'' \<noteq> []"
    by (simp add: mysql_password_only_def)
  have k2: "kw_secret_name redshift_password_only = Some ''password-only'' \<and> ''password-only'' \<noteq> []"
    by (simp add: redshift_password_only_def)
  from t s p1 absent k1
  have "\<exists>params. RdsMySQL_params_from_secret example_world ''password-only''
                 = (Inr params, [GetSecretValue ''password-only''])
       \<and> host params = PNone \<and> user params = PNone
       \<and> PyMySQLConnect params
            \<in> set (snd (connect example_world mysql_password_only body_returns))"
    by blast
  moreover from t s p2 absent k2
  have "\<exists>params. params_from_secret example_world ''password-only''
                 = (Inr params, [GetSecretValue ''password-only''])
       \<and> host params = PNone \<and> user params = PNone
       \<and> Psycopg2Connect params
            \<in> set (snd (connect_psycopg2 example_world redshift_password_only body_returns))"
    by blast
  ultimately show ?thesis by blast
qed

text \<open>
  The claim C5 fails on the secret \<open>{"password": "pw"}\<close>, which has no host key and no
  user key: \<open>connect\<close> raises nothing and calls the driver with host \<open>None\<close> and user
  \<open>None\<close>.
\<close>

theorem incomplete_secret_counterexample:
  "connect example_world mysql_password_only body_returns
     = (Inr 1,
        [GetSecretValue ''password-only'',
         PyMySQLConnect \<lparr> host = PNone, port = 3306, database = PNone, user = PNone,
                          password = PStr ''pw'', connect_timeout = 10, ssl = PNone \<rparr>,
         Yield, Close 1])"
  by (simp add: connect_def mysql_password_only_def mysql_neither_def
        RdsMySQL_params_from_secret_def get_secret_def example_world_def dict_get_def
        dict_get_default_def py_or_def yield_and_close_def body_returns_def)

subsection \<open>Closing the connection\<close>

lemma connect_psycopg2_closes_once:
  assumes run: "connect_psycopg2 w kw body = (outcome, evs)"
    and called: "Psycopg2Connect p \<in> set evs"
    and opened: "psycopg2_connect w p = Inr conn"
  shows "closes evs = [conn_id conn]
         \<and> (case close_raises conn of
               None \<Rightarrow> outcome = body conn
             | Some e \<Rightarrow>
                 if is_Exception e
                 then outcome = body conn \<and> LogException ''Error closing Redshift psycopg2 connection'' \<in> set evs
                 else outcome = Inl e \<and> LogException ''Error closing Redshift psycopg2 connection'' \<notin> set evs)"
proof -
  let ?msg = "''Error closing Redshift psycopg2 connection''"
  obtain res pre where pre: "\<forall>c. Close c \<notin> set pre" "\<forall>p. Psycopg2Connect p \<notin> set pre"
      "LogException ?msg \<notin> set pre"
    and shape: "case res of
           Inl e \<Rightarrow> connect_psycopg2 w kw body = (Inl e, pre)
         | Inr params \<Rightarrow>
             (case psycopg2_connect w params of
                Inl e \<Rightarrow> connect_psycopg2 w kw body = (Inl e, pre @ [Psycopg2Connect params])
              | Inr conn \<Rightarrow>
                  connect_psycopg2 w kw body =
                    (fst (yield_and_close ?msg conn body),
                     pre @ [Psycopg2Connect params] @ snd (yield_and_close ?msg conn body)))"
    using connect_psycopg2_shape [of w kw body] by blast
  show ?thesis
  proof (cases res)
    case (Inl e)
    with shape run called pre show ?thesis by auto
  next
    case (Inr params)
    note yev = yield_and_close_events [of ?msg _ body]
    show ?thesis
    proof (cases "psycopg2_connect w params")
      case (Inl e)
      with Inr shape run called pre opened show ?thesis by auto
    next
      case c: (Inr conn')
      have evs: "evs = pre @ [Psycopg2Connect params] @ snd (yield_and_close ?msg conn' body)"
        and out: "outcome = fst (yield_and_close ?msg conn' body)"
        using Inr c shape run by auto
      have "p = params"
        using called pre(2) yev [of conn'] unfolding evs by auto
      then have same: "conn' = conn"
        using c opened by simp
      have "closes evs = [conn_id conn]"
        unfolding evs same
        by (simp add: closes_append closes_none [OF pre(1)] yield_and_close_closes)
      moreover have "case close_raises conn of
               None \<Rightarrow> outcome = body conn
             | Some e \<Rightarrow>
                 if is_Exception e
                 then outcome = body conn \<and> LogException ?msg \<in> set evs
                 else outcome = Inl e \<and> LogException ?msg \<notin> set evs"
        unfolding evs out same
        using pre(3)
        by (auto simp: yield_and_close_outcome split: option.splits)
      ultimately show ?thesis by simp
    qed
  qed
qed

text \<open>
  C7, as the code has it. Whenever a context manager has opened a connection (the driver
  was called with \<open>p\<close> and returned \<open>conn\<close>), the events hold one \<open>close\<close>, of that
  connection, whatever the block did: \<open>body conn\<close> is any outcome, a value or an
  exception. When \<open>close\<close> returns, the outcome of the \<open>with\<close> statement is that of the
  block. When \<open>close\<close> raises an \<open>Exception\<close>, it is logged and dropped, and the outcome
  is still that of the block. When \<open>close\<close> raises something that is not an \<open>Exception\<close>
  (a \<open>KeyboardInterrupt\<close>, a \<open>SystemExit\<close>), \<open>except Exception\<close> does not catch it:
  nothing is logged and it is raised in place of the outcome of the block.
\<close>

theorem session_closed_exactly_once:
  "(connect w kw body = (outcome, evs) \<and> PyMySQLConnect p \<in> set evs
      \<and> pymysql_connect w p = Inr conn \<longrightarrow>
      closes evs = [conn_id conn]
      \<and> (case close_raises conn of
            None \<Rightarrow> outcome = body conn
          | Some e \<Rightarrow>
              if is_Exception e
              then outcome = body conn
                   \<and> LogException ''Error closing MySQL connection'' \<in> set evs
              else outcome = Inl e
                   \<and> LogException ''Error closing MySQL connection'' \<notin> set evs))
   \<and> (connect_psycopg2 w kw' body' = (outcome', evs') \<and> Psycopg2Connect p' \<in> set evs'
      \<and> psycopg2_connect w p' = Inr conn' \<longrightarrow>
      closes evs' = [conn_id conn']
      \<and> (case close_raises conn' of
            None \<Rightarrow> outcome' = body' conn'
          | Some e \<Rightarrow>
              if is_Exception e
              then outcome' = body' conn'
                   \<and> LogException ''Error closing Redshift psycopg2 connection'' \<in> set evs'
              else outcome' = Inl e
                   \<and> LogException ''Error closing Redshift psycopg2 connection'' \<notin> set evs'))"
  using connect_closes_once [of w kw body outcome evs p conn]
    connect_psycopg2_closes_once [of w kw' body' outcome' evs' p' conn']
  by blast

theorem session_closed_exactly_once_witness:
  "connect example_world mysql_explicit body_raises
     = (Inl (RuntimeError ''boom''),
        [PyMySQLConnect \<lparr> host = PStr ''db.example.com'', port = 3306, database = PStr ''shop'',
                          user = PStr ''admin'', password = PStr ''s3cret'',
                          connect_timeout = 10, ssl = PNone \<rparr>,
         Yield, Close 1])
   \<and> closes [PyMySQLConnect \<lparr> host = PStr ''db.example.com'', port = 3306,
                               database = PStr ''shop'', user = PStr ''admin'',
                               password = PStr ''s3cret'', connect_timeout = 10, ssl = PNone \<rparr>,
              Yield, Close 1] = [1]
   \<and> connect interrupted_world mysql_explicit body_raises
     = (Inl (BaseException ''KeyboardInterrupt''),
        [PyMySQLConnect \<lparr> host = PStr ''db.example.com'', port = 3306, database = PStr ''shop'',
                          user = PStr ''admin'', password = PStr ''s3cret'',
                          connect_timeout = 10, ssl = PNone \<rparr>,
         Yield, Close 3])
   \<and> closes [PyMySQLConnect \<lparr> host = PStr ''db.example.com'', port = 3306,
                               database = PStr ''shop'', user = PStr ''admin'',
                               password = PStr ''s3cret'', connect_timeout = 10, ssl = PNone \<rparr>,
              Yield, Close 3] = [3]
   \<and> connect_psycopg2 example_world redshift_explicit body_returns
     = (Inr 2,
        [Psycopg2Connect \<lparr> host = PStr ''wh.example.com'', port = 5440, database = PStr ''dev'',
                           user = PStr ''analyst'', password = PStr ''s3cret'' \<rparr>,
         Yield, Close 2, LogException ''Error closing Redshift psycopg2 connection''])
   \<and> closes [Psycopg2Connect \<lparr> host = PStr ''wh.example.com'', port = 5440,
                                database = PStr ''dev'', user = PStr ''analyst'',
                                password = PStr ''s3cret'' \<rparr>,
              Yield, Close 2, LogException ''Error closing Redshift psycopg2 connection''] = [2]"
proof -
  let ?p = "\<lparr> host = PStr ''db.example.com'', port = 3306, database = PStr ''shop'',
              user = PStr ''admin'', password = PStr ''s3cret'',
              connect_timeout = 10, ssl = PNone \<rparr>"
  let ?q = "\<lparr> host = PStr ''wh.example.com'', port = 5440, database = PStr ''dev'',
              user = PStr ''analyst'', password = PStr ''s3cret'' \<rparr>"
  let ?evs = "[PyMySQLConnect ?p, Yield, Close 1]"
  let ?ivs = "[PyMySQLConnect ?p, Yield, Close 3]"
  let ?evs' = "[Psycopg2Connect ?q, Yield, Close 2,
                LogException ''Error closing Redshift psycopg2 connection'']"
  let ?c = "\<lparr> conn_id = 1, close_raises = None \<rparr>"
  let ?i = "\<lparr> conn_id = 3, close_raises = Some (BaseException ''KeyboardInterrupt'') \<rparr>"
  let ?c' = "\<lparr> conn_id = 2, close_raises = Some (OtherException ''connection already closed'') \<rparr>"
  have m: "connect example_world mysql_explicit body_raises = (Inl (RuntimeError ''boom''), ?evs)"
    by (simp add: connect_def mysql_explicit_def example_world_def yield_and_close_def
          body_raises_def)
  have i: "connect interrupted_world mysql_explicit body_raises
             = (Inl (BaseException ''KeyboardInterrupt''), ?ivs)"
    by (simp add: connect_def mysql_explicit_def interrupted_world_def example_world_def
          yield_and_close_def body_raises_def)
  have r: "connect_psycopg2 example_world redshift_explicit body_returns = (Inr 2, ?evs')"
    by (simp add: connect_psycopg2_def redshift_explicit_def example_world_def
          yield_and_close_def body_returns_def)
  have om: "pymysql_connect example_world ?p = Inr ?c"
    by (simp add: example_world_def)
  have oi: "pymysql_connect interrupted_world ?p = Inr ?i"
    by (simp add: interrupted_world_def)
  have orr: "psycopg2_connect example_world ?q = Inr ?c'"
    by (simp add: example_world_def)
  note t = session_closed_exactly_once
             [of example_world mysql_explicit body_raises "Inl (RuntimeError ''boom'')" ?evs ?p ?c
                 redshift_explicit body_returns "Inr 2" ?evs' ?q ?c']
  note u = session_closed_exactly_once
             [of interrupted_world mysql_explicit body_raises
                 "Inl (BaseException ''KeyboardInterrupt'')" ?ivs ?p ?i
                 redshift_explicit body_returns "Inr 2" ?evs' ?q ?c']
  have "closes ?evs = [1]"
    using t m om by simp
  moreover have "closes ?ivs = [3]"
    using u i oi by simp
  moreover have "closes ?evs' = [2]"
    using t r orr by simp
  ultimately show ?thesis
    using m i r by simp
qed

text \<open>
  The claim C7 fails where \<open>close\<close> is interrupted: the block returns 3, \<open>close\<close>
  raises \<open>KeyboardInterrupt\<close>, and the \<open>with\<close> statement raises \<open>KeyboardInterrupt\<close>
  instead of returning 3, with nothing logged.
\<close>

theorem close_interrupted_counterexample:
  "connect interrupted_world mysql_explicit body_returns
     = (Inl (BaseException ''KeyboardInterrupt''),
        [PyMySQLConnect \<lparr> host = PStr ''db.example.com'', port = 3306, database = PStr ''shop'',
                          user = PStr ''admin'', password = PStr ''s3cret'',
                          connect_timeout = 10, ssl = PNone \<rparr>,
         Yield, Close 3])"
  by (simp add: connect_def mysql_explicit_def interrupted_world_def example_world_def
        yield_and_close_def body_returns_def)

section \<open>Properties of the Data API call\<close>

subsection \<open>The polling loop\<close>

lemma waited_after_0: "waited_after interval 0 = Finite 0"
  by (simp add: waited_after_def)

lemma waited_after_Suc:
  "waited_after interval (Suc k) = float_add (waited_after interval k) interval"
  by (simp add: waited_after_def)

lemma poll_loop_counts:
  assumes pending: "\<forall>n. \<exists>d. describe_statement w sid n = Inr d
                      \<and> Status d \<notin> {Some ''FINISHED'', Some ''ABORTED'', Some ''FAILED'', Some ''TIMED_OUT''}"
    and sleeps: "sleep w interval = None"
  shows "\<forall>j<k. float_lt (((\<lambda>t. float_add t interval) ^^ j) waited) limit \<Longrightarrow>
         \<not> float_lt (((\<lambda>t. float_add t interval) ^^ k) waited) limit \<Longrightarrow>
         poll_loop w sid interval limit waited n evs
           = Some (None, evs @ concat (replicate k [DescribeStatement sid, Sleep interval]))"
proof (induction k arbitrary: waited n evs)
  case 0
  then have "\<not> float_lt waited limit" by simp
  then show ?case
    by (subst poll_loop.simps) simp
next
  case (Suc k)
  have now: "float_lt waited limit"
    using Suc.prems(1) [rule_format, of 0] by simp
  have shift: "((\<lambda>t. float_add t interval) ^^ Suc j) waited
                 = ((\<lambda>t. float_add t interval) ^^ j) (float_add waited interval)" for j
    by (simp only: funpow_Suc_right o_apply)
  have later: "\<forall>j<k. float_lt (((\<lambda>t. float_add t interval) ^^ j) (float_add waited interval)) limit"
  proof (intro allI impI)
    fix j assume "j < k"
    then have "Suc j < Suc k" by simp
    then have "float_lt (((\<lambda>t. float_add t interval) ^^ Suc j) waited) limit"
      using Suc.prems(1) by blast
    then show "float_lt (((\<lambda>t. float_add t interval) ^^ j) (float_add waited interval)) limit"
      unfolding shift .
  qed
  have reached: "\<not> float_lt (((\<lambda>t. float_add t interval) ^^ k) (float_add waited interval)) limit"
    using Suc.prems(2) unfolding shift .
  obtain d where d: "describe_statement w sid n = Inr d"
    "Status d \<notin> {Some ''FINISHED'', Some ''ABORTED'', Some ''FAILED'', Some ''TIMED_OUT''}"
    using pending by blast
  have "poll_loop w sid interval limit waited n evs
          = poll_loop w sid interval limit (float_add waited interval) (Suc n)
              (evs @ [DescribeStatement sid, Sleep interval])"
    using now d sleeps by (subst poll_loop.simps) simp
  also have "\<dots> = Some (None, (evs @ [DescribeStatement sid, Sleep interval])
                      @ concat (replicate k [DescribeStatement sid, Sleep interval]))"
    by (rule Suc.IH [OF later reached])
  finally show ?case
    by simp
qed

lemma poll_loop_extends:
  "poll_loop w sid interval limit waited n evs = Some res \<Longrightarrow> \<exists>rest. snd res = evs @ rest"
proof (induction rule: poll_loop.raw_induct [rotated 1, consumes 1, case_names body])
  case (body f w sid interval limit waited n evs res)
  show ?case
  proof (cases "float_lt waited limit")
    case False
    with body(2) show ?thesis by auto
  next
    case True
    show ?thesis
    proof (cases "describe_statement w sid n")
      case (Inl e)
      with True body(2) show ?thesis by auto
    next
      case (Inr d)
      show ?thesis
      proof (cases "Status d = Some ''FINISHED''
                    \<or> Status d \<in> {Some ''ABORTED'', Some ''FAILED'', Some ''TIMED_OUT''}
                    \<or> sleep w interval \<noteq> None")
        case True
        with \<open>float_lt waited limit\<close> Inr body(2) show ?thesis
          by (auto split: if_splits option.splits)
      next
        case False
        with \<open>float_lt waited limit\<close> Inr body(2)
        have "f w sid interval limit (float_add waited interval) (Suc n)
                (evs @ [DescribeStatement sid, Sleep interval]) = Some res"
          by (simp split: if_splits)
        from body(1) [OF this] show ?thesis by (auto simp: append_assoc)
      qed
    qed
  qed
qed

lemma execute_submits_first:
  assumes target: "given (cluster_identifier a) \<or> given (workgroup_name a)"
    and run: "execute_query_data_api w a = Some res"
  shows "\<exists>rest. snd res = ExecuteStatement (request_kwargs a) # rest"
proof (cases "execute_statement w (request_kwargs a)")
  case (Inl e)
  with target run show ?thesis
    by (auto simp: execute_query_data_api_def Let_def)
next
  case (Inr sid)
  show ?thesis
  proof (cases "wait a")
    case False
    with Inr target run show ?thesis
      by (auto simp: execute_query_data_api_def Let_def)
  next
    case True
    let ?loop = "poll_loop w sid (poll_interval a) (timeout a) (Finite 0) 0
                   [ExecuteStatement (request_kwargs a)]"
    from Inr True target run obtain r evs where loop: "?loop = Some (r, evs)"
      by (cases ?loop) (auto simp: execute_query_data_api_def Let_def)
    from poll_loop_extends [OF loop] obtain mid
      where evs: "evs = ExecuteStatement (request_kwargs a) # mid"
      by auto
    from Inr True target run loop show ?thesis
      unfolding evs
      by (auto simp: execute_query_data_api_def Let_def split: option.splits sum.splits)
  qed
qed

lemma execute_returns:
  assumes "\<not> wait a"
  shows "\<exists>res. execute_query_data_api w a = Some res"
  using assms by (simp add: execute_query_data_api_def Let_def split: sum.splits)

lemma request_kwargs_targets:
  assumes "given (cluster_identifier a)" and "given (workgroup_name a)"
  shows "map_of (request_kwargs a) ''ClusterIdentifier'' = cluster_identifier a"
    and "map_of (request_kwargs a) ''WorkgroupName'' = workgroup_name a"
  using assms
  by (cases "cluster_identifier a"; cases "workgroup_name a"; simp add: request_kwargs_def)+

lemma waited_after_step:
  "k = j + 1 \<Longrightarrow> waited_after interval k = float_add (waited_after interval j) interval"
  by (simp add: waited_after_def)

text \<open>The literals \<open>0.1\<close> and \<open>0.8\<close>, and what adding \<open>0.1\<close> nine times to \<open>0.0\<close> gives.\<close>

lemma tenth: "round_double (1 / 10) = Finite (3602879701896397 / 36028797018963968)"
  by code_simp

lemma half: "round_double (1 / 2) = Finite (1 / 2)"
  by code_simp

lemma eight_tenths: "round_double (8 / 10) = Finite (3602879701896397 / 4503599627370496)"
  by code_simp

lemma add_tenths:
  "float_add (Finite (0)) (Finite (3602879701896397 / 36028797018963968)) = Finite (3602879701896397 / 36028797018963968)"
  "float_add (Finite (3602879701896397 / 36028797018963968)) (Finite (3602879701896397 / 36028797018963968)) = Finite (3602879701896397 / 18014398509481984)"
  "float_add (Finite (3602879701896397 / 18014398509481984)) (Finite (3602879701896397 / 36028797018963968)) = Finite (1351079888211149 / 4503599627370496)"
  "float_add (Finite (1351079888211149 / 4503599627370496)) (Finite (3602879701896397 / 36028797018963968)) = Finite (3602879701896397 / 9007199254740992)"
  "float_add (Finite (3602879701896397 / 9007199254740992)) (Finite (3602879701896397 / 36028797018963968)) = Finite (1 / 2)"
  "float_add (Finite (1 / 2)) (Finite (3602879701896397 / 36028797018963968)) = Finite (5404319552844595 / 9007199254740992)"
  "float_add (Finite (5404319552844595 / 9007199254740992)) (Finite (3602879701896397 / 36028797018963968)) = Finite (3152519739159347 / 4503599627370496)"
  "float_add (Finite (3152519739159347 / 4503599627370496)) (Finite (3602879701896397 / 36028797018963968)) = Finite (7205759403792793 / 9007199254740992)"
  "float_add (Finite (7205759403792793 / 9007199254740992)) (Finite (3602879701896397 / 36028797018963968)) = Finite (2026619832316723 / 2251799813685248)"
  by code_simp+

lemma waited_tenths:
  "waited_after (round_double (1 / 10)) 0 = Finite (0)"
  "waited_after (round_double (1 / 10)) 1 = Finite (3602879701896397 / 36028797018963968)"
  "waited_after (round_double (1 / 10)) 2 = Finite (3602879701896397 / 18014398509481984)"
  "waited_after (round_double (1 / 10)) 3 = Finite (1351079888211149 / 4503599627370496)"
  "waited_after (round_double (1 / 10)) 4 = Finite (3602879701896397 / 9007199254740992)"
  "waited_after (round_double (1 / 10)) 5 = Finite (1 / 2)"
  "waited_after (round_double (1 / 10)) 6 = Finite (5404319552844595 / 9007199254740992)"
  "waited_after (round_double (1 / 10)) 7 = Finite (3152519739159347 / 4503599627370496)"
  "waited_after (round_double (1 / 10)) 8 = Finite (7205759403792793 / 9007199254740992)"
  "waited_after (round_double (1 / 10)) 9 = Finite (2026619832316723 / 2251799813685248)"
proof -
  let ?w = "waited_after (round_double (1 / 10))"
  show w0: "?w 0 = Finite 0"
    by (simp add: waited_after_def)
  show w1: "?w 1 = Finite (3602879701896397 / 36028797018963968)"
    using w0 waited_after_step [of 1 0 "round_double (1 / 10)"] by (simp add: tenth add_tenths del: float_add.simps)
  show w2: "?w 2 = Finite (3602879701896397 / 18014398509481984)"
    using w1 waited_after_step [of 2 1 "round_double (1 / 10)"] by (simp add: tenth add_tenths del: float_add.simps)
  show w3: "?w 3 = Finite (1351079888211149 / 4503599627370496)"
    using w2 waited_after_step [of 3 2 "round_double (1 / 10)"] by (simp add: tenth add_tenths del: float_add.simps)
  show w4: "?w 4 = Finite (3602879701896397 / 9007199254740992)"
    using w3 waited_after_step [of 4 3 "round_double (1 / 10)"] by (simp add: tenth add_tenths del: float_add.simps)
  show w5: "?w 5 = Finite (1 / 2)"
    using w4 waited_after_step [of 5 4 "round_double (1 / 10)"] by (simp add: tenth add_tenths del: float_add.simps)
  show w6: "?w 6 = Finite (5404319552844595 / 9007199254740992)"
    using w5 waited_after_step [of 6 5 "round_double (1 / 10)"] by (simp add: tenth add_tenths del: float_add.simps)
  show w7: "?w 7 = Finite (3152519739159347 / 4503599627370496)"
    using w6 waited_after_step [of 7 6 "round_double (1 / 10)"] by (simp add: tenth add_tenths del: float_add.simps)
  show w8: "?w 8 = Finite (7205759403792793 / 9007199254740992)"
    using w7 waited_after_step [of 8 7 "round_double (1 / 10)"] by (simp add: tenth add_tenths del: float_add.simps)
  show w9: "?w 9 = Finite (2026619832316723 / 2251799813685248)"
    using w8 waited_after_step [of 9 8 "round_double (1 / 10)"] by (simp add: tenth add_tenths del: float_add.simps)
qed

lemma polls_until_budget_spent:
  assumes target: "given (cluster_identifier a) \<or> given (workgroup_name a)"
    and submitted: "execute_statement w (request_kwargs a) = Inr sid"
    and waits: "wait a"
    and sleeps: "sleep w (poll_interval a) = None"
    and pending: "\<forall>n. \<exists>d. describe_statement w sid n = Inr d
                    \<and> Status d \<notin> {Some ''FINISHED'', Some ''ABORTED'', Some ''FAILED'', Some ''TIMED_OUT''}"
    and within: "\<forall>j<k. float_lt (waited_after (poll_interval a) j) (timeout a)"
    and reached: "\<not> float_lt (waited_after (poll_interval a) k) (timeout a)"
  shows "execute_query_data_api w a =
           Some (case get_statement_result w sid of
                   Inl e \<Rightarrow> Inl e
                 | Inr result \<Rightarrow> decode_result result,
                 ExecuteStatement (request_kwargs a)
                 # concat (replicate k [DescribeStatement sid, Sleep (poll_interval a)])
                 @ GetStatementResult sid
                 # (case get_statement_result w sid of
                      Inl e \<Rightarrow> if is_ClientError e
                               then [LogException ''Failed to fetch statement results''] else []
                    | Inr result \<Rightarrow> []))"
proof -
  have "poll_loop w sid (poll_interval a) (timeout a) (Finite 0) 0
          [ExecuteStatement (request_kwargs a)]
          = Some (None, [ExecuteStatement (request_kwargs a)]
                        @ concat (replicate k [DescribeStatement sid, Sleep (poll_interval a)]))"
    using within reached
    by (intro poll_loop_counts [OF pending sleeps]) (simp_all add: waited_after_def)
  then show ?thesis
    using target submitted waits
    by (simp add: execute_query_data_api_def Let_def split: sum.splits)
qed


lemma five_tenths:
  "\<forall>j<5. float_lt (waited_after (round_double (1 / 10)) j) (round_double (1 / 2))"
  "\<not> float_lt (waited_after (round_double (1 / 10)) 5) (round_double (1 / 2))"
proof -
  let ?w = "waited_after (round_double (1 / 10))"
  let ?l = "round_double (1 / 2)"
  have below: "float_lt (?w 0) ?l" "float_lt (?w 1) ?l" "float_lt (?w 2) ?l"
    "float_lt (?w 3) ?l" "float_lt (?w 4) ?l"
    unfolding waited_tenths half by simp_all
  show "\<forall>j<5. float_lt (?w j) ?l"
  proof (intro allI impI)
    fix j :: nat
    assume "j < 5"
    then consider "j = 0" | "j = 1" | "j = 2" | "j = 3" | "j = 4"
      by linarith
    then show "float_lt (?w j) ?l"
      using below by cases blast+
  qed
  show "\<not> float_lt (?w 5) ?l"
    unfolding waited_tenths half by simp
qed

lemma nine_tenths:
  "\<forall>j<9. float_lt (waited_after (round_double (1 / 10)) j) (round_double (8 / 10))"
  "\<not> float_lt (waited_after (round_double (1 / 10)) 9) (round_double (8 / 10))"
proof -
  let ?w = "waited_after (round_double (1 / 10))"
  let ?l = "round_double (8 / 10)"
  have below: "float_lt (?w 0) ?l" "float_lt (?w 1) ?l" "float_lt (?w 2) ?l"
    "float_lt (?w 3) ?l" "float_lt (?w 4) ?l" "float_lt (?w 5) ?l" "float_lt (?w 6) ?l"
    "float_lt (?w 7) ?l" "float_lt (?w 8) ?l"
    unfolding waited_tenths eight_tenths by simp_all
  show "\<forall>j<9. float_lt (?w j) ?l"
  proof (intro allI impI)
    fix j :: nat
    assume "j < 9"
    then consider "j = 0" | "j = 1" | "j = 2" | "j = 3" | "j = 4" | "j = 5" | "j = 6" | "j = 7"
      | "j = 8"
      by linarith
    then show "float_lt (?w j) ?l"
      using below by cases blast+
  qed
  show "\<not> float_lt (?w 9) ?l"
    unfolding waited_tenths eight_tenths by simp
qed

text \<open>
  C1, as the code has it. Against a statement that never reaches a final status (and
  with a \<open>sleep\<close> that returns), a call that waits polls \<open>describe_statement\<close> until the
  time waited, \<open>poll_interval\<close> added up in float arithmetic, is no longer below
  \<open>timeout\<close>: \<open>k\<close> polls when this happens after \<open>k\<close> rounds. Then the loop just ends: no
  error is raised for the timeout, \<open>get_statement_result\<close> is called, once, and the call
  returns the rows decoded from its answer, or raises what it raised. In particular, with
  \<open>poll_interval = 0.1\<close> and \<open>timeout = 0.5\<close> the call makes five polls and then calls
  \<open>get_statement_result\<close>.
\<close>

theorem wait_budget_spent_then_fetch:
  "(given (cluster_identifier a) \<or> given (workgroup_name a)) \<and>
   execute_statement w (request_kwargs a) = Inr sid \<and> wait a \<and>
   sleep w (poll_interval a) = None \<and>
   (\<forall>n. \<exists>d. describe_statement w sid n = Inr d
          \<and> Status d \<notin> {Some ''FINISHED'', Some ''ABORTED'', Some ''FAILED'', Some ''TIMED_OUT''})
   \<longrightarrow>
     ((\<forall>j<k. float_lt (waited_after (poll_interval a) j) (timeout a))
      \<and> \<not> float_lt (waited_after (poll_interval a) k) (timeout a) \<longrightarrow>
      execute_query_data_api w a =
        Some (case get_statement_result w sid of
                      Inl e \<Rightarrow> Inl e
                    | Inr result \<Rightarrow> decode_result result,
                    ExecuteStatement (request_kwargs a)
                    # concat (replicate k [DescribeStatement sid, Sleep (poll_interval a)])
                    @ GetStatementResult sid
                    # (case get_statement_result w sid of
                         Inl e \<Rightarrow> if is_ClientError e
                                  then [LogException ''Failed to fetch statement results''] else []
                       | Inr result \<Rightarrow> [])))
     \<and> (poll_interval a = round_double (1 / 10) \<and> timeout a = round_double (1 / 2) \<longrightarrow>
        execute_query_data_api w a =
        Some (case get_statement_result w sid of
                      Inl e \<Rightarrow> Inl e
                    | Inr result \<Rightarrow> decode_result result,
                    ExecuteStatement (request_kwargs a)
                    # concat (replicate 5 [DescribeStatement sid, Sleep (poll_interval a)])
                    @ GetStatementResult sid
                    # (case get_statement_result w sid of
                         Inl e \<Rightarrow> if is_ClientError e
                                  then [LogException ''Failed to fetch statement results''] else []
                       | Inr result \<Rightarrow> [])))"
  (is "?running \<longrightarrow> (?counted \<longrightarrow> ?polled) \<and> (?tenths \<longrightarrow> ?five)")
proof (intro impI)
  assume ?running
  then have target: "given (cluster_identifier a) \<or> given (workgroup_name a)"
    and submitted: "execute_statement w (request_kwargs a) = Inr sid"
    and waits: "wait a"
    and sleeps: "sleep w (poll_interval a) = None"
    and pending: "\<forall>n. \<exists>d. describe_statement w sid n = Inr d
          \<and> Status d \<notin> {Some ''FINISHED'', Some ''ABORTED'', Some ''FAILED'', Some ''TIMED_OUT''}"
    by blast+
  note run = polls_until_budget_spent [OF target submitted waits sleeps pending]
  show "(?counted \<longrightarrow> ?polled) \<and> (?tenths \<longrightarrow> ?five)"
  proof (intro conjI impI)
    assume ?counted
    then show ?polled
      using run [of k] by blast
  next
    assume ?tenths
    then have "\<forall>j<5. float_lt (waited_after (poll_interval a) j) (timeout a)"
      and "\<not> float_lt (waited_after (poll_interval a) 5) (timeout a)"
      using five_tenths by simp_all
    then show ?five
      by (rule run)
  qed
qed

text \<open>
  With \<open>poll_interval = 0.1\<close> and \<open>timeout = 0.8\<close> the loop makes nine polls, not eight:
  eight times \<open>0.1\<close> add up to \<open>0.7999999999999999\<close>.
\<close>

theorem wait_budget_spent_then_fetch_witness:
  "execute_query_data_api example_world longer_query
     = Some (Inr [[(''a'', PStr ''x''), (''b'', PNone)]],
             ExecuteStatement [(''Sql'', ''SELECT 1 AS test''), (''Database'', ''dev''),
                               (''ClusterIdentifier'', ''cluster-1'')]
             # concat (replicate 9 [DescribeStatement ''stmt-1'', Sleep (round_double (1 / 10))])
             @ [GetStatementResult ''stmt-1''])
   \<and> execute_query_data_api example_world workgroup_query
     = Some (Inr [[(''a'', PStr ''x''), (''b'', PNone)]],
             ExecuteStatement [(''Sql'', ''SELECT 1 AS test''), (''Database'', ''dev''),
                               (''WorkgroupName'', ''workgroup-1'')]
             # concat (replicate 5 [DescribeStatement ''stmt-1'', Sleep (round_double (1 / 10))])
             @ [GetStatementResult ''stmt-1''])"
proof -
  have iv: "poll_interval longer_query = round_double (1 / 10)"
    "poll_interval workgroup_query = round_double (1 / 10)"
    and lim: "timeout longer_query = round_double (8 / 10)"
    "timeout workgroup_query = round_double (1 / 2)"
    by (simp_all add: longer_query_def workgroup_query_def waiting_query_def)
  have target: "given (cluster_identifier longer_query) \<or> given (workgroup_name longer_query)"
    "given (cluster_identifier workgroup_query) \<or> given (workgroup_name workgroup_query)"
    by (simp_all add: longer_query_def workgroup_query_def waiting_query_def)
  have kwargs: "request_kwargs longer_query
                  = [(''Sql'', ''SELECT 1 AS test''), (''Database'', ''dev''),
                     (''ClusterIdentifier'', ''cluster-1'')]"
    "request_kwargs workgroup_query
                  = [(''Sql'', ''SELECT 1 AS test''), (''Database'', ''dev''),
                     (''WorkgroupName'', ''workgroup-1'')]"
    by (simp_all add: request_kwargs_def longer_query_def workgroup_query_def waiting_query_def)
  have submitted: "execute_statement example_world (request_kwargs longer_query) = Inr ''stmt-1''"
    "execute_statement example_world (request_kwargs workgroup_query) = Inr ''stmt-1''"
    by (simp_all add: example_world_def)
  have waits: "wait longer_query" "wait workgroup_query"
    by (simp_all add: longer_query_def workgroup_query_def waiting_query_def)
  have "sleep example_world (Finite (3602879701896397 / 36028797018963968)) = None"
    by (simp add: example_world_def)
  then have sleeps: "sleep example_world (poll_interval longer_query) = None"
    "sleep example_world (poll_interval workgroup_query) = None"
    unfolding iv tenth by simp_all
  have pending: "\<forall>n. \<exists>d. describe_statement example_world ''stmt-1'' n = Inr d
                   \<and> Status d \<notin> {Some ''FINISHED'', Some ''ABORTED'', Some ''FAILED'', Some ''TIMED_OUT''}"
    by (simp add: example_world_def)
  have within: "(\<forall>j<9. float_lt (waited_after (poll_interval longer_query) j) (timeout longer_query))
                \<and> \<not> float_lt (waited_after (poll_interval longer_query) 9) (timeout longer_query)"
    unfolding iv lim using nine_tenths by blast
  have result: "get_statement_result example_world ''stmt-1''
                  = Inr \<lparr> ColumnMetadata = Some [[(''name'', ''a'')], [(''name'', ''b'')]],
                          Records = Some [[PDict [(''stringValue'', PStr ''x'')],
                                           PDict [(''isNull'', PBool True)]]] \<rparr>"
    by (simp add: example_world_def)
  have rows: "decode_result \<lparr> ColumnMetadata = Some [[(''name'', ''a'')], [(''name'', ''b'')]],
                              Records = Some [[PDict [(''stringValue'', PStr ''x'')],
                                               PDict [(''isNull'', PBool True)]]] \<rparr>
                = Inr [[(''a'', PStr ''x''), (''b'', PNone)]]"
    by (simp add: decode_result_def decode_cell_def dict_get_def)
  have cond9: "(given (cluster_identifier longer_query) \<or> given (workgroup_name longer_query)) \<and>
      execute_statement example_world (request_kwargs longer_query) = Inr ''stmt-1'' \<and>
      wait longer_query \<and> sleep example_world (poll_interval longer_query) = None \<and>
      (\<forall>n. \<exists>d. describe_statement example_world ''stmt-1'' n = Inr d
             \<and> Status d \<notin> {Some ''FINISHED'', Some ''ABORTED'', Some ''FAILED'', Some ''TIMED_OUT''})"
    using target(1) submitted(1) waits(1) sleeps(1) pending by blast
  have cond5: "(given (cluster_identifier workgroup_query) \<or> given (workgroup_name workgroup_query)) \<and>
      execute_statement example_world (request_kwargs workgroup_query) = Inr ''stmt-1'' \<and>
      wait workgroup_query \<and> sleep example_world (poll_interval workgroup_query) = None \<and>
      (\<forall>n. \<exists>d. describe_statement example_world ''stmt-1'' n = Inr d
             \<and> Status d \<notin> {Some ''FINISHED'', Some ''ABORTED'', Some ''FAILED'', Some ''TIMED_OUT''})"
    using target(2) submitted(2) waits(2) sleeps(2) pending by blast
  have tenths: "poll_interval workgroup_query = round_double (1 / 10)
                \<and> timeout workgroup_query = round_double (1 / 2)"
    using iv(2) lim(2) by blast
  note t9 = wait_budget_spent_then_fetch
              [of longer_query example_world "''stmt-1''" 9,
               THEN mp, OF cond9, THEN conjunct1, THEN mp, OF within]
  note t5 = wait_budget_spent_then_fetch
              [of workgroup_query example_world "''stmt-1''" 0,
               THEN mp, OF cond5, THEN conjunct2, THEN mp, OF tenths]
  have nine: "execute_query_data_api example_world longer_query
     = Some (Inr [[(''a'', PStr ''x''), (''b'', PNone)]],
             ExecuteStatement [(''Sql'', ''SELECT 1 AS test''), (''Database'', ''dev''),
                               (''ClusterIdentifier'', ''cluster-1'')]
             # concat (replicate 9 [DescribeStatement ''stmt-1'', Sleep (round_double (1 / 10))])
             @ [GetStatementResult ''stmt-1''])"
    using t9 unfolding kwargs result iv by (simp only: sum.case rows)
  have five: "execute_query_data_api example_world workgroup_query
     = Some (Inr [[(''a'', PStr ''x''), (''b'', PNone)]],
             ExecuteStatement [(''Sql'', ''SELECT 1 AS test''), (''Database'', ''dev''),
                               (''WorkgroupName'', ''workgroup-1'')]
             # concat (replicate 5 [DescribeStatement ''stmt-1'', Sleep (round_double (1 / 10))])
             @ [GetStatementResult ''stmt-1''])"
    using t5 unfolding kwargs result iv by (simp only: sum.case rows)
  from nine five show ?thesis by blast
qed

text \<open>
  The claim C1 fails on its own example: with \<open>poll_interval = 0.1\<close> and \<open>timeout = 0.5\<close>
  against a statement that stays in \<open>STARTED\<close>, the call polls five times, then calls
  \<open>get_statement_result\<close> and returns its row. Nothing is raised.
\<close>

theorem local_timeout_counterexample:
  "execute_query_data_api example_world waiting_query
     = Some (Inr [[(''a'', PStr ''x''), (''b'', PNone)]],
             [ExecuteStatement [(''Sql'', ''SELECT 1 AS test''), (''Database'', ''dev''),
                                (''ClusterIdentifier'', ''cluster-1'')],
              DescribeStatement ''stmt-1'', Sleep (round_double (1 / 10)),
              DescribeStatement ''stmt-1'', Sleep (round_double (1 / 10)),
              DescribeStatement ''stmt-1'', Sleep (round_double (1 / 10)),
              DescribeStatement ''stmt-1'', Sleep (round_double (1 / 10)),
              DescribeStatement ''stmt-1'', Sleep (round_double (1 / 10)),
              GetStatementResult ''stmt-1''])"
  by code_simp

subsection \<open>The target of a statement\<close>

text \<open>
  C3, as the code has it. A call that names neither a cluster nor a workgroup raises
  \<open>ValueError\<close> and submits nothing. A call that names both is not rejected: both
  identifiers go into the request, and the request is submitted, as the first thing the
  call does. (A call that does not wait always returns.)
\<close>

theorem target_check_rejects_neither_only:
  "(\<not> given (cluster_identifier a) \<and> \<not> given (workgroup_name a) \<longrightarrow>
      execute_query_data_api w a
        = Some (Inl (ValueError ''Either cluster_identifier or workgroup_name must be provided''), []))
   \<and> (given (cluster_identifier a) \<and> given (workgroup_name a) \<longrightarrow>
        map_of (request_kwargs a) ''ClusterIdentifier'' = cluster_identifier a
        \<and> map_of (request_kwargs a) ''WorkgroupName'' = workgroup_name a
        \<and> (\<forall>res. execute_query_data_api w a = Some res \<longrightarrow>
              (\<exists>rest. snd res = ExecuteStatement (request_kwargs a) # rest))
        \<and> (\<not> wait a \<longrightarrow> (\<exists>res. execute_query_data_api w a = Some res)))"
proof (intro conjI impI allI)
  assume "\<not> given (cluster_identifier a) \<and> \<not> given (workgroup_name a)"
  then show "execute_query_data_api w a
        = Some (Inl (ValueError ''Either cluster_identifier or workgroup_name must be provided''), [])"
    by (simp add: execute_query_data_api_def Let_def)
next
  assume "given (cluster_identifier a) \<and> given (workgroup_name a)"
  then show "map_of (request_kwargs a) ''ClusterIdentifier'' = cluster_identifier a"
    by (simp add: request_kwargs_targets)
next
  assume "given (cluster_identifier a) \<and> given (workgroup_name a)"
  then show "map_of (request_kwargs a) ''WorkgroupName'' = workgroup_name a"
    by (simp add: request_kwargs_targets)
next
  fix res
  assume "given (cluster_identifier a) \<and> given (workgroup_name a)"
    and "execute_query_data_api w a = Some res"
  then show "\<exists>rest. snd res = ExecuteStatement (request_kwargs a) # rest"
    using execute_submits_first [of a w res] by simp
next
  assume "\<not> wait a"
  then show "\<exists>res. execute_query_data_api w a = Some res"
    by (rule execute_returns)
qed

theorem target_check_rejects_neither_only_witness:
  "execute_query_data_api example_world no_target_query
     = Some (Inl (ValueError ''Either cluster_identifier or workgroup_name must be provided''), [])
   \<and> map_of (request_kwargs both_targets_query) ''ClusterIdentifier'' = Some ''cluster-1''
   \<and> map_of (request_kwargs both_targets_query) ''WorkgroupName'' = Some ''workgroup-1''
   \<and> (\<exists>res rest. execute_query_data_api example_world both_targets_query = Some res
         \<and> snd res = ExecuteStatement (request_kwargs both_targets_query) # rest)"
proof -
  note none = target_check_rejects_neither_only [of no_target_query example_world]
  note both = target_check_rejects_neither_only [of both_targets_query example_world]
  have n: "\<not> given (cluster_identifier no_target_query)
           \<and> \<not> given (workgroup_name no_target_query)"
    by (simp add: no_target_query_def waiting_query_def)
  have b: "given (cluster_identifier both_targets_query)
           \<and> given (workgroup_name both_targets_query)"
    by (simp add: both_targets_query_def waiting_query_def)
  have c: "cluster_identifier both_targets_query = Some ''cluster-1''"
    "workgroup_name both_targets_query = Some ''workgroup-1''"
    "\<not> wait both_targets_query"
    by (simp_all add: both_targets_query_def waiting_query_def)
  have "execute_query_data_api example_world no_target_query
     = Some (Inl (ValueError ''Either cluster_identifier or workgroup_name must be provided''), [])"
    using none n by blast
  moreover have "map_of (request_kwargs both_targets_query) ''ClusterIdentifier'' = Some ''cluster-1''"
    using both b c(1) by metis
  moreover have "map_of (request_kwargs both_targets_query) ''WorkgroupName'' = Some ''workgroup-1''"
    using both b c(2) by metis
  moreover have "\<exists>res rest. execute_query_data_api example_world both_targets_query = Some res
         \<and> snd res = ExecuteStatement (request_kwargs both_targets_query) # rest"
    using both b c(3) by metis
  ultimately show ?thesis by blast
qed

text \<open>
  The claim C3 fails where both are supplied: a call that names \<open>cluster-1\<close> and
  \<open>workgroup-1\<close> submits the statement with both and returns.
\<close>

theorem both_targets_counterexample:
  "execute_query_data_api example_world both_targets_query
     = Some (Inr [],
             [ExecuteStatement [(''Sql'', ''SELECT 1 AS test''), (''Database'', ''dev''),
                                (''ClusterIdentifier'', ''cluster-1''),
                                (''WorkgroupName'', ''workgroup-1'')]])"
  by (simp add: execute_query_data_api_def example_world_def both_targets_query_def
        waiting_query_def request_kwargs_def)

end
